theory Spec2Isabelle
  imports Main
begin

section \<open>JavaScript values\<close>

text \<open>
  The values that travel through the program: what a client sends over a socket, what is
  put on a queue and what is emitted. Numbers are kept as integers (the program only copies
  them and reads the clock), a \<^verbatim>\<open>Date\<close> is its millisecond count, an object is its list
  of properties in insertion order.
\<close>

datatype js =
    Undefined
  | Null
  | Bool bool
  | Num int
  | Str string
  | Date int
  | Arr "js list"
  | Obj "(string \<times> js) list"

datatype error = Error string | TypeError | SyntaxError | CastError

text \<open>
  Reading a property \<^verbatim>\<open>v.k\<close> (also by destructuring): it throws a TypeError on
  \<^verbatim>\<open>undefined\<close> and \<^verbatim>\<open>null\<close>, gives the property of an object, and
  \<^verbatim>\<open>undefined\<close> where there is none. The keys the program reads (\<^verbatim>\<open>id\<close>,
  \<^verbatim>\<open>chatId\<close>, \<^verbatim>\<open>content\<close>, ...) are no built-in property of a string, number, date
  or array.
\<close>

fun get_prop :: "js \<Rightarrow> string \<Rightarrow> error + js" where
  "get_prop Undefined k = Inl TypeError"
| "get_prop Null k = Inl TypeError"
| "get_prop (Obj kvs) k = Inr (case map_of kvs k of None \<Rightarrow> Undefined | Some v \<Rightarrow> v)"
| "get_prop v k = Inr Undefined"

text \<open>What \<^verbatim>\<open>if (v)\<close>, \<^verbatim>\<open>!v\<close> and \<^verbatim>\<open>v || w\<close> test.\<close>

fun truthy :: "js \<Rightarrow> bool" where
  "truthy Undefined = False"
| "truthy Null = False"
| "truthy (Bool b) = b"
| "truthy (Num n) = (n \<noteq> 0)"
| "truthy (Str s) = (s \<noteq> [])"
| "truthy v = True"

text \<open>
  The library functions the program calls and does not define: \<^verbatim>\<open>JSON.parse\<close> (which
  throws a SyntaxError on a text that is not JSON), \<^verbatim>\<open>JSON.stringify\<close> (which gives
  \<^verbatim>\<open>undefined\<close>, here \<open>None\<close>, for \<^verbatim>\<open>undefined\<close>), and the texts that a number
  and a date print as (neither conversion throws).
\<close>

record runtime =
  JSON_parse :: "string \<Rightarrow> error + js"
  JSON_stringify :: "js \<Rightarrow> string option"
  Number_toString :: "int \<Rightarrow> string"
  Date_toString :: "int \<Rightarrow> string"

text \<open>
  The conversion to a string that a template literal applies to \<^verbatim>\<open>${v}\<close>. The values
  are data, as a socket or \<^verbatim>\<open>JSON.parse\<close> delivers them: no property holds a function.
  So an object that has a property of its own named \<^verbatim>\<open>toString\<close> has nothing to call
  there, \<^verbatim>\<open>valueOf\<close> gives no primitive either, and the conversion throws a TypeError;
  every other object prints as \<^verbatim>\<open>[object Object]\<close>. An array prints its elements
  joined by commas, \<^verbatim>\<open>null\<close> and \<^verbatim>\<open>undefined\<close> elements as the empty text.
\<close>

fun String_of :: "runtime \<Rightarrow> js \<Rightarrow> error + string"
  and join_elements :: "runtime \<Rightarrow> js list \<Rightarrow> error + string" where
  "String_of rt Undefined = Inr ''undefined''"
| "String_of rt Null = Inr ''null''"
| "String_of rt (Bool b) = Inr (if b then ''true'' else ''false'')"
| "String_of rt (Num n) = Inr (Number_toString rt n)"
| "String_of rt (Str s) = Inr s"
| "String_of rt (Date d) = Inr (Date_toString rt d)"
| "String_of rt (Arr vs) = join_elements rt vs"
| "String_of rt (Obj kvs) =
     (if ''toString'' \<in> fst ` set kvs then Inl TypeError else Inr ''[object Object]'')"
| "join_elements rt [] = Inr []"
| "join_elements rt (v # vs) =
     (case (if v = Undefined \<or> v = Null then Inr [] else String_of rt v) of
        Inl e \<Rightarrow> Inl e
      | Inr s \<Rightarrow>
          (if vs = [] then Inr s
           else (case join_elements rt vs of
                   Inl e \<Rightarrow> Inl e
                 | Inr t \<Rightarrow> Inr (s @ '','' @ t))))"

section \<open>Effects\<close>

text \<open>
  An item the broker delivers to a consumer: its delivery tag and the text of its content
  (\<^verbatim>\<open>msg.content.toString()\<close>).
\<close>

record queue_item =
  deliveryTag :: nat
  content_text :: string

datatype target = ToSocket string | ToRoom string | ToRoomExcept string string | ToAll

datatype callback = Initialize

text \<open>
  What the program does to the outside, in the order it does it: lines on the console,
  calls to the broker, timers, socket events, and the write of a document to the store
  (\<open>Save\<close>, which is \<^verbatim>\<open>await this.save()\<close>). \<open>SendToQueue q b p\<close> is
  \<^verbatim>\<open>channel.sendToQueue(q, Buffer.from(b), { persistent: p })\<close>, \<open>AssertQueue q d\<close> is
  \<^verbatim>\<open>channel.assertQueue(q, { durable: d })\<close>.
\<close>

datatype effect =
    Log string
  | LogError string error
  | Connect string
  | CreateChannel
  | AssertQueue string bool
  | SendToQueue string string bool
  | Consume string
  | Ack queue_item
  | Nack queue_item
  | SetTimeout callback nat
  | Emit target string js
  | Join string string
  | Save

section \<open>Chat documents (models/Chat.js)\<close>

text \<open>
  A Mongoose ObjectId is a 12-byte value that prints as 24 hexadecimal digits in lower
  case; two ids are the same id exactly when they print the same. The model keeps the
  printed form.
\<close>

datatype object_id = ObjectId string

fun toString :: "object_id \<Rightarrow> string" where
  "toString (ObjectId h) = h"

text \<open>
  What a caller hands to a document method as \<^verbatim>\<open>userId\<close>: an ObjectId, or a string
  that spells one. \<open>user_id_toString\<close> is \<^verbatim>\<open>userId.toString()\<close>: a string is its own
  text, as it is written.
\<close>

datatype user_id = Oid object_id | IdString string

fun user_id_toString :: "user_id \<Rightarrow> string" where
  "user_id_toString (Oid i) = toString i"
| "user_id_toString (IdString s) = s"

text \<open>The fields of \<^verbatim>\<open>ChatSchema\<close> that carry identity and membership.\<close>

record chat =
  name :: "string option"
  isGroup :: bool
  participants :: "object_id list"
  admins :: "object_id list"
  createdBy :: object_id

text \<open>
  \<^verbatim>\<open>this.participants.includes(userId)\<close> on a Mongoose array: \<^verbatim>\<open>indexOf\<close> replaces an
  ObjectId argument by its printed form and then compares the argument with each element
  by \<^verbatim>\<open>==\<close>, which prints the element. A string argument is compared as it is written:
  it is not cast.
\<close>

definition includes_id :: "object_id list \<Rightarrow> user_id \<Rightarrow> bool" where
  "includes_id ids userId = (user_id_toString userId \<in> set (map toString ids))"

text \<open>
  \<^verbatim>\<open>this.participants.push(userId)\<close> casts what it stores, as the schema says
  (\<^verbatim>\<open>type: mongoose.Schema.Types.ObjectId\<close>): an ObjectId is kept, a string is read by
  the library, which gives the id that the string spells or throws a CastError.
  \<open>castObjectId\<close> is that reading of a string.
\<close>

definition cast_participant ::
  "(string \<Rightarrow> error + object_id) \<Rightarrow> user_id \<Rightarrow> error + object_id" where
  "cast_participant castObjectId userId =
     (case userId of Oid i \<Rightarrow> Inr i | IdString s \<Rightarrow> castObjectId s)"

text \<open>
  \<^verbatim>\<open>
  ChatSchema.methods.addParticipant = async function(userId) {
    if (!this.participants.includes(userId)) {
      this.participants.push(userId);
      await this.save();
    }
  };
  \<close>
  The result is the document after the call and what the call did to the store, or the
  error that \<^verbatim>\<open>push\<close> threw (the document is then as it was).
\<close>

definition addParticipant ::
  "(string \<Rightarrow> error + object_id) \<Rightarrow> chat \<Rightarrow> user_id \<Rightarrow> error + chat \<times> effect list" where
  "addParticipant castObjectId this userId =
     (if \<not> includes_id (participants this) userId
      then (case cast_participant castObjectId userId of
              Inl e \<Rightarrow> Inl e
            | Inr i \<Rightarrow> Inr (this\<lparr>participants := participants this @ [i]\<rparr>, [Save]))
      else Inr (this, []))"

text \<open>
  \<^verbatim>\<open>
  ChatSchema.methods.removeParticipant = async function(userId) {
    if (this.participants.includes(userId)) {
      this.participants = this.participants.filter(id => id.toString() !== userId.toString());
      await this.save();
    }
  };
  \<close>
\<close>

definition removeParticipant :: "chat \<Rightarrow> user_id \<Rightarrow> chat \<times> effect list" where
  "removeParticipant this userId =
     (if includes_id (participants this) userId
      then (this\<lparr>participants :=
                    filter (\<lambda>i. toString i \<noteq> user_id_toString userId) (participants this)\<rparr>,
            [Save])
      else (this, []))"

section \<open>Message documents (models/Chat.js, MessageSchema)\<close>

record attachment =
  type_a :: "string option"
  url :: "string option"
  thumbnail :: "string option"
  name_a :: "string option"
  size_a :: "int option"
  metadata :: js

text \<open>An entry of \<^verbatim>\<open>deliveredTo\<close> or of \<^verbatim>\<open>readBy\<close>.\<close>

record receipt =
  user :: "object_id option"
  timestamp :: int

text \<open>
  The paths of \<^verbatim>\<open>MessageSchema\<close> up to \<^verbatim>\<open>deleted\<close>; \<open>None\<close> is a path that is
  \<^verbatim>\<open>undefined\<close> or \<^verbatim>\<open>null\<close>. The paths left out (\<^verbatim>\<open>createdAt\<close>,
  \<^verbatim>\<open>updatedAt\<close>, \<^verbatim>\<open>deletedAt\<close>, \<^verbatim>\<open>forwardedFrom\<close>, \<^verbatim>\<open>meta\<close>) have
  defaults and no validator.
\<close>

record message =
  chatId :: "object_id option"
  sender :: "object_id option"
  content :: "string option"
  attachments :: "attachment list option"
  replyTo :: "object_id option"
  deliveredTo :: "receipt list"
  readBy :: "receipt list"
  deleted :: bool

text \<open>
  \<^verbatim>\<open>required: function() { return !this.attachments || this.attachments.length === 0; }\<close>
\<close>

definition content_required :: "message \<Rightarrow> bool" where
  "content_required this =
     (case attachments this of None \<Rightarrow> True | Some as \<Rightarrow> length as = 0)"

text \<open>\<^verbatim>\<open>enum: ['image', 'video', 'audio', 'document', 'location']\<close>\<close>

definition attachment_types :: "string list" where
  "attachment_types = [''image'', ''video'', ''audio'', ''document'', ''location'']"

text \<open>
  Validation of a message document, as Mongoose runs the validators the schema declares.
  A required path fails when it has no value; a required String path also fails on the
  empty string. An enum validator passes a path that is not set and otherwise wants one of
  the listed values. The result lists the failures: \<open>Required p\<close> for the path \<open>p\<close>,
  \<open>Enum i v\<close> for the value \<open>v\<close> of \<^verbatim>\<open>attachments.i.type\<close>.
\<close>

datatype validator_error = Required string | Enum nat string

definition check_required_string :: "string option \<Rightarrow> bool" where
  "check_required_string v = (case v of None \<Rightarrow> False | Some s \<Rightarrow> s \<noteq> [])"

fun validate_attachments :: "nat \<Rightarrow> attachment list \<Rightarrow> validator_error list" where
  "validate_attachments i [] = []"
| "validate_attachments i (a # as) =
     (case type_a a of
        None \<Rightarrow> []
      | Some t \<Rightarrow> if t \<in> set attachment_types then [] else [Enum i t])
     @ validate_attachments (Suc i) as"

definition validate_message :: "message \<Rightarrow> validator_error list" where
  "validate_message this =
     (if chatId this = None then [Required ''chatId''] else [])
     @ (if sender this = None then [Required ''sender''] else [])
     @ (if content_required this \<and> \<not> check_required_string (content this)
        then [Required ''content''] else [])
     @ (case attachments this of None \<Rightarrow> [] | Some as \<Rightarrow> validate_attachments 0 as)"

section \<open>The message queue (messagequeue.js)\<close>

text \<open>
  The broker's objects, with what the broker answers to each call: \<open>assertQueue\<close> rejects
  with an error or resolves, \<open>sendToQueue\<close> throws or returns a boolean, \<open>createChannel\<close>
  rejects or resolves to a channel.
\<close>

record amqp_channel =
  assertQueue :: "string \<Rightarrow> bool \<Rightarrow> error option"
  sendToQueue :: "string \<Rightarrow> string \<Rightarrow> bool \<Rightarrow> error + bool"

record amqp_connection =
  createChannel :: "error + amqp_channel"

text \<open>The fields of a \<^verbatim>\<open>MessageQueue\<close>; \<open>None\<close> is \<^verbatim>\<open>null\<close>.\<close>

record message_queue =
  connection :: "amqp_connection option"
  channel :: "amqp_channel option"

text \<open>
  \<^verbatim>\<open>
  async queueMessage(message) {
    if (!this.channel) {
      throw new Error('Message queue not initialized');
    }
    return this.channel.sendToQueue(
      'chat_messages', Buffer.from(JSON.stringify(message)), { persistent: true });
  }
  \<close>
  \<^verbatim>\<open>Buffer.from(undefined)\<close> throws a TypeError.
\<close>

definition queueMessage :: "runtime \<Rightarrow> message_queue \<Rightarrow> js \<Rightarrow> (error + bool) \<times> effect list" where
  "queueMessage rt this message =
     (case channel this of
        None \<Rightarrow> (Inl (Error ''Message queue not initialized''), [])
      | Some ch \<Rightarrow>
          (case JSON_stringify rt message of
             None \<Rightarrow> (Inl TypeError, [])
           | Some b \<Rightarrow> (sendToQueue ch ''chat_messages'' b True,
                        [SendToQueue ''chat_messages'' b True])))"

definition queueNotification :: "runtime \<Rightarrow> message_queue \<Rightarrow> js \<Rightarrow> (error + bool) \<times> effect list" where
  "queueNotification rt this notification =
     (case channel this of
        None \<Rightarrow> (Inl (Error ''Message queue not initialized''), [])
      | Some ch \<Rightarrow>
          (case JSON_stringify rt notification of
             None \<Rightarrow> (Inl TypeError, [])
           | Some b \<Rightarrow> (sendToQueue ch ''notifications'' b True,
                        [SendToQueue ''notifications'' b True])))"

text \<open>The text a template literal puts in for \<^verbatim>\<open>${JSON.stringify(v)}\<close>.\<close>

definition stringified :: "runtime \<Rightarrow> js \<Rightarrow> string" where
  "stringified rt v = (case JSON_stringify rt v of None \<Rightarrow> ''undefined'' | Some b \<Rightarrow> b)"

text \<open>
  \<^verbatim>\<open>
  async processMessage(message) {
    console.log(`Processing message: ${JSON.stringify(message)}`);
    const notification = {
      type: 'message_delivered',
      messageId: message.id,
      chatId: message.chatId,
      recipients: message.recipients
    };
    await this.queueNotification(notification);
  }
  \<close>
\<close>

definition notification_of :: "js \<Rightarrow> error + js" where
  "notification_of message =
     (case get_prop message ''id'' of
        Inl e \<Rightarrow> Inl e
      | Inr messageId \<Rightarrow>
          (case get_prop message ''chatId'' of
             Inl e \<Rightarrow> Inl e
           | Inr chatId' \<Rightarrow>
               (case get_prop message ''recipients'' of
                  Inl e \<Rightarrow> Inl e
                | Inr recipients \<Rightarrow>
                    Inr (Obj [(''type'', Str ''message_delivered''),
                              (''messageId'', messageId),
                              (''chatId'', chatId'),
                              (''recipients'', recipients)]))))"

definition processMessage :: "runtime \<Rightarrow> message_queue \<Rightarrow> js \<Rightarrow> (error + unit) \<times> effect list" where
  "processMessage rt this message =
     (let logged = [Log (''Processing message: '' @ stringified rt message)] in
      case notification_of message of
        Inl e \<Rightarrow> (Inl e, logged)
      | Inr notification \<Rightarrow>
          (case queueNotification rt this notification of
             (Inl e, es) \<Rightarrow> (Inl e, logged @ es)
           | (Inr sent, es) \<Rightarrow> (Inr (), logged @ es)))"

text \<open>
  \<^verbatim>\<open>
  async processNotification(notification) {
    console.log(`Processing notification: ${JSON.stringify(notification)}`);
  }
  \<close>
\<close>

definition processNotification :: "runtime \<Rightarrow> message_queue \<Rightarrow> js \<Rightarrow> (error + unit) \<times> effect list" where
  "processNotification rt this notification =
     (Inr (), [Log (''Processing notification: '' @ stringified rt notification)])"

text \<open>
  A method call on \<^verbatim>\<open>this.channel\<close> that the broker answers with nothing
  (\<^verbatim>\<open>ack\<close>, \<^verbatim>\<open>nack\<close>): a TypeError while the field is \<^verbatim>\<open>null\<close>, the call
  otherwise.
\<close>

definition channel_call :: "message_queue \<Rightarrow> effect \<Rightarrow> (error + unit) \<times> effect list" where
  "channel_call this e =
     (case channel this of None \<Rightarrow> (Inl TypeError, []) | Some ch \<Rightarrow> (Inr (), [e]))"

text \<open>
  The two consumers that \<^verbatim>\<open>startMessageProcessing\<close> registers. Each is the callback
  \<^verbatim>\<open>
  async (msg) => {
    if (msg) {
      try {
        const message = JSON.parse(msg.content.toString());
        await this.processMessage(message);
        this.channel.ack(msg);
      } catch (error) {
        console.error('Error processing message:', error);
        this.channel.nack(msg);
      }
    }
  }
  \<close>
  with \<^verbatim>\<open>processNotification\<close> in the second. The broker calls it with \<^verbatim>\<open>null\<close>
  (\<open>None\<close>) when the consumer is cancelled.
\<close>

definition on_chat_message :: "runtime \<Rightarrow> message_queue \<Rightarrow> queue_item option \<Rightarrow> effect list" where
  "on_chat_message rt this msg =
     (case msg of
        None \<Rightarrow> []
      | Some m \<Rightarrow>
          (case (case JSON_parse rt (content_text m) of
                   Inl e \<Rightarrow> (Inl e, [])
                 | Inr parsed \<Rightarrow>
                     (case processMessage rt this parsed of
                        (Inl e, es) \<Rightarrow> (Inl e, es)
                      | (Inr done, es) \<Rightarrow>
                          (case channel_call this (Ack m) of (r, es') \<Rightarrow> (r, es @ es')))) of
             (Inr done, es) \<Rightarrow> es
           | (Inl e, es) \<Rightarrow>
               es @ [LogError ''Error processing message:'' e]
                  @ snd (channel_call this (Nack m))))"

definition on_notification :: "runtime \<Rightarrow> message_queue \<Rightarrow> queue_item option \<Rightarrow> effect list" where
  "on_notification rt this msg =
     (case msg of
        None \<Rightarrow> []
      | Some m \<Rightarrow>
          (case (case JSON_parse rt (content_text m) of
                   Inl e \<Rightarrow> (Inl e, [])
                 | Inr parsed \<Rightarrow>
                     (case processNotification rt this parsed of
                        (Inl e, es) \<Rightarrow> (Inl e, es)
                      | (Inr done, es) \<Rightarrow>
                          (case channel_call this (Ack m) of (r, es') \<Rightarrow> (r, es @ es')))) of
             (Inr done, es) \<Rightarrow> es
           | (Inl e, es) \<Rightarrow>
               es @ [LogError ''Error processing notification:'' e]
                  @ snd (channel_call this (Nack m))))"

definition startMessageProcessing :: "message_queue \<Rightarrow> effect list" where
  "startMessageProcessing this =
     (case channel this of
        None \<Rightarrow> []
      | Some ch \<Rightarrow> [Consume ''chat_messages'', Consume ''notifications''])"

text \<open>
  \<^verbatim>\<open>
  async initialize() {
    try {
      this.connection = await amqp.connect('amqp://localhost');
      this.channel = await this.connection.createChannel();
      await this.channel.assertQueue('chat_messages', { durable: true });
      await this.channel.assertQueue('notifications', { durable: true });
      console.log('Message queue system initialized');
      this.startMessageProcessing();
    } catch (error) {
      console.error('Failed to initialize message queue:', error);
      setTimeout(() => this.initialize(), 5000);
    }
  }
  \<close>
  \<open>initialize_try\<close> is the \<^verbatim>\<open>try\<close> block, \<open>amqp_connect\<close> what \<^verbatim>\<open>amqp.connect\<close>
  answers at this attempt. \<^verbatim>\<open>startMessageProcessing\<close> is not awaited: nothing it
  throws reaches the \<^verbatim>\<open>catch\<close>.
\<close>

definition initialize_try ::
  "(string \<Rightarrow> error + amqp_connection) \<Rightarrow> message_queue
     \<Rightarrow> (error + unit) \<times> message_queue \<times> effect list" where
  "initialize_try amqp_connect this =
     (case amqp_connect ''amqp://localhost'' of
        Inl e \<Rightarrow> (Inl e, this, [Connect ''amqp://localhost''])
      | Inr conn \<Rightarrow>
          (let this1 = this\<lparr>connection := Some conn\<rparr>;
               es1 = [Connect ''amqp://localhost'', CreateChannel] in
           case createChannel conn of
             Inl e \<Rightarrow> (Inl e, this1, es1)
           | Inr ch \<Rightarrow>
               (let this2 = this1\<lparr>channel := Some ch\<rparr>;
                    es2 = es1 @ [AssertQueue ''chat_messages'' True] in
                case assertQueue ch ''chat_messages'' True of
                  Some e \<Rightarrow> (Inl e, this2, es2)
                | None \<Rightarrow>
                    (let es3 = es2 @ [AssertQueue ''notifications'' True] in
                     case assertQueue ch ''notifications'' True of
                       Some e \<Rightarrow> (Inl e, this2, es3)
                     | None \<Rightarrow>
                         (Inr (), this2,
                          es3 @ [Log ''Message queue system initialized'']
                              @ startMessageProcessing this2)))))"

definition initialize ::
  "(string \<Rightarrow> error + amqp_connection) \<Rightarrow> message_queue \<Rightarrow> message_queue \<times> effect list" where
  "initialize amqp_connect this =
     (case initialize_try amqp_connect this of
        (Inr done, this', es) \<Rightarrow> (this', es)
      | (Inl e, this', es) \<Rightarrow>
          (this', es @ [LogError ''Failed to initialize message queue:'' e,
                        SetTimeout Initialize 5000]))"

text \<open>The callbacks of the timers that a run of effects has set.\<close>

fun scheduled :: "effect list \<Rightarrow> callback list" where
  "scheduled [] = []"
| "scheduled (SetTimeout cb delay # es) = cb # scheduled es"
| "scheduled (e # es) = scheduled es"

text \<open>
  The constructor's call of \<^verbatim>\<open>initialize\<close> followed by the firings of the timer it may
  set. The list holds what \<^verbatim>\<open>amqp.connect\<close> answers at the first attempt and at each
  later one; the run stops when an attempt sets no timer, or when the list is used up (the
  timer of the last attempt is then still pending).
\<close>

fun initialize_run ::
  "(string \<Rightarrow> error + amqp_connection) list \<Rightarrow> message_queue \<Rightarrow> message_queue \<times> effect list" where
  "initialize_run [] this = (this, [])"
| "initialize_run (amqp_connect # later) this =
     (case initialize amqp_connect this of
        (this', es) \<Rightarrow>
          if Initialize \<in> set (scheduled es)
          then (case initialize_run later this' of (this'', es') \<Rightarrow> (this'', es @ es'))
          else (this', es))"

section \<open>The socket server (server.js)\<close>

text \<open>A connected socket: its id and the id of its authenticated user.\<close>

record socket =
  socket_id :: string
  socket_user :: string

text \<open>
  What \<^verbatim>\<open>findUserSocket\<close> reads of \<^verbatim>\<open>io\<close>: \<^verbatim>\<open>io.sockets.adapter.rooms\<close>,
  from a room's name to the ids of the sockets in it in the order they joined, and
  \<^verbatim>\<open>io.sockets.sockets\<close>, from a socket's id to the socket.
\<close>

record io_server =
  rooms :: "string \<rightharpoonup> string list"
  sockets :: "string \<rightharpoonup> socket"

text \<open>The stored messages, by message id.\<close>

type_synonym database = "string \<rightharpoonup> message"

text \<open>
  \<^verbatim>\<open>
  async function storeMessageDeliveryStatus(message) {
    console.log(`Storing delivery status for message: ${message.id}`);
  }
  \<close>
\<close>

definition storeMessageDeliveryStatus :: "runtime \<Rightarrow> js \<Rightarrow> effect list" where
  "storeMessageDeliveryStatus rt msg =
     (case get_prop msg ''id'' of
        Inl e \<Rightarrow> []
      | Inr i \<Rightarrow>
          (case String_of rt i of
             Inl e \<Rightarrow> []
           | Inr t \<Rightarrow> [Log (''Storing delivery status for message: '' @ t)]))"

text \<open>
  \<^verbatim>\<open>
  async function updateMessageReadStatus(chatId, messageId, userId) {
    // Update message read status in database
    console.log(`User ${userId} read message ${messageId} in chat ${chatId}`);
  }
  \<close>
  The body builds a line and writes it on the console, and nothing else: the stored
  messages come back as they were. Building the line converts \<^verbatim>\<open>messageId\<close> and then
  \<^verbatim>\<open>chatId\<close> to strings, which may throw; nothing is written then.
\<close>

definition updateMessageReadStatus ::
  "runtime \<Rightarrow> database \<Rightarrow> js \<Rightarrow> js \<Rightarrow> string \<Rightarrow> (error + unit) \<times> database \<times> effect list" where
  "updateMessageReadStatus rt db chatId' messageId userId =
     (case String_of rt messageId of
        Inl e \<Rightarrow> (Inl e, db, [])
      | Inr m \<Rightarrow>
          (case String_of rt chatId' of
             Inl e \<Rightarrow> (Inl e, db, [])
           | Inr c \<Rightarrow>
               (Inr (), db,
                [Log (''User '' @ userId @ '' read message '' @ m @ '' in chat '' @ c)])))"

text \<open>
  \<^verbatim>\<open>
  async function createNewChatRoom(name, participants, isGroup, creatorId) {
    const chatRoom = {
      id: `chat_${Date.now()}`,
      name, participants, isGroup,
      createdBy: creatorId,
      createdAt: new Date()
    };
    console.log(`New chat room created: ${chatRoom.id}`);
    return chatRoom;
  }
  \<close>
  \<open>now\<close> is the clock's reading during the call.
\<close>

definition createNewChatRoom :: "runtime \<Rightarrow> int \<Rightarrow> js \<Rightarrow> js \<Rightarrow> js \<Rightarrow> string \<Rightarrow> js \<times> effect list" where
  "createNewChatRoom rt now name' participants' isGroup' creatorId =
     (let room_id = ''chat_'' @ Number_toString rt now;
          chatRoom = Obj [(''id'', Str room_id),
                          (''name'', name'),
                          (''participants'', participants'),
                          (''isGroup'', isGroup'),
                          (''createdBy'', Str creatorId),
                          (''createdAt'', Date now)]
      in (chatRoom, [Log (''New chat room created: '' @ room_id)]))"

text \<open>
  \<^verbatim>\<open>
  function findUserSocket(userId) {
    const userSockets = io.sockets.adapter.rooms.get(`user:${userId}`);
    if (userSockets) {
      const socketId = Array.from(userSockets)[0];
      return io.sockets.sockets.get(socketId);
    }
    return null;
  }
  \<close>
  \<open>None\<close> is \<^verbatim>\<open>null\<close> or \<^verbatim>\<open>undefined\<close>, which the caller's \<^verbatim>\<open>if\<close> does not
  tell apart. The template literal throws when \<^verbatim>\<open>userId\<close> has no string form.
\<close>

definition findUserSocket :: "runtime \<Rightarrow> io_server \<Rightarrow> js \<Rightarrow> error + socket option" where
  "findUserSocket rt io userId =
     (case String_of rt userId of
        Inl e \<Rightarrow> Inl e
      | Inr u \<Rightarrow>
          Inr (case rooms io (''user:'' @ u) of
                 None \<Rightarrow> None
               | Some userSockets \<Rightarrow>
                   (case userSockets of
                      [] \<Rightarrow> None
                    | socketId # others \<Rightarrow> sockets io socketId)))"

text \<open>\<^verbatim>\<open>socket.join(room)\<close>: the room holds each socket once.\<close>

definition join :: "io_server \<Rightarrow> string \<Rightarrow> string \<Rightarrow> io_server" where
  "join io sid room =
     (case rooms io room of
        None \<Rightarrow> io\<lparr>rooms := (rooms io)(room \<mapsto> [sid])\<rparr>
      | Some members \<Rightarrow>
          if sid \<in> set members then io
          else io\<lparr>rooms := (rooms io)(room \<mapsto> members @ [sid])\<rparr>)"

text \<open>
  The object literal of the \<^verbatim>\<open>send_message\<close> handler:
  \<^verbatim>\<open>
  const message = {
    sender: userId,
    content,
    attachments: attachments || [],
    timestamp: new Date(),
    chatId
  };
  \<close>
\<close>

definition message_object :: "string \<Rightarrow> int \<Rightarrow> js \<Rightarrow> js \<Rightarrow> js \<Rightarrow> js" where
  "message_object userId now chatId' content' attachments' =
     Obj [(''sender'', Str userId),
          (''content'', content'),
          (''attachments'', if truthy attachments' then attachments' else Arr []),
          (''timestamp'', Date now),
          (''chatId'', chatId')]"

text \<open>
  \<^verbatim>\<open>
  socket.on('send_message', async (data) => {
    try {
      const { chatId, content, attachments } = data;
      const message = { ... };
      await messageQueue.queueMessage(message);
      io.to(`chat:${chatId}`).emit('new_message', message);
      storeMessageDeliveryStatus(message);
    } catch (error) {
      socket.emit('error', { message: 'Failed to send message' });
    }
  });
  \<close>
\<close>

definition on_send_message ::
  "runtime \<Rightarrow> int \<Rightarrow> message_queue \<Rightarrow> socket \<Rightarrow> js \<Rightarrow> effect list" where
  "on_send_message rt now messageQueue sock data =
     (case (case get_prop data ''chatId'' of
              Inl e \<Rightarrow> (Inl e, [])
            | Inr chatId' \<Rightarrow>
                (case get_prop data ''content'' of
                   Inl e \<Rightarrow> (Inl e, [])
                 | Inr content' \<Rightarrow>
                     (case get_prop data ''attachments'' of
                        Inl e \<Rightarrow> (Inl e, [])
                      | Inr attachments' \<Rightarrow>
                          (let msg = message_object (socket_user sock) now
                                       chatId' content' attachments' in
                           case queueMessage rt messageQueue msg of
                             (Inl e, es) \<Rightarrow> (Inl e, es)
                           | (Inr queued, es) \<Rightarrow>
                               (case String_of rt chatId' of
                                  Inl e \<Rightarrow> (Inl e, es)
                                | Inr c \<Rightarrow>
                                    (Inr (),
                                     es @ [Emit (ToRoom (''chat:'' @ c)) ''new_message'' msg]
                                        @ storeMessageDeliveryStatus rt msg)))))) of
        (Inr done, es) \<Rightarrow> es
      | (Inl e, es) \<Rightarrow>
          es @ [Emit (ToSocket (socket_id sock)) ''error''
                  (Obj [(''message'', Str ''Failed to send message'')])])"

text \<open>
  \<^verbatim>\<open>
  socket.on('mark_read', async (data) => {
    const { chatId, messageId } = data;
    await updateMessageReadStatus(chatId, messageId, userId);
    socket.to(`chat:${chatId}`).emit('message_read', { userId, messageId, chatId });
  });
  \<close>
  There is no \<^verbatim>\<open>try\<close>: when a step throws, the handler's promise rejects with the error
  and nothing more is done.
\<close>

definition on_mark_read ::
  "runtime \<Rightarrow> database \<Rightarrow> socket \<Rightarrow> js \<Rightarrow> (error + unit) \<times> database \<times> effect list" where
  "on_mark_read rt db sock data =
     (case get_prop data ''chatId'' of
        Inl e \<Rightarrow> (Inl e, db, [])
      | Inr chatId' \<Rightarrow>
          (case get_prop data ''messageId'' of
             Inl e \<Rightarrow> (Inl e, db, [])
           | Inr messageId \<Rightarrow>
               (case updateMessageReadStatus rt db chatId' messageId (socket_user sock) of
                  (Inl e, db', es) \<Rightarrow> (Inl e, db', es)
                | (Inr updated, db', es) \<Rightarrow>
                    (case String_of rt chatId' of
                       Inl e \<Rightarrow> (Inl e, db', es)
                     | Inr c \<Rightarrow>
                         (Inr (), db',
                          es @ [Emit (ToRoomExcept (''chat:'' @ c) (socket_id sock))
                                  ''message_read''
                                  (Obj [(''userId'', Str (socket_user sock)),
                                        (''messageId'', messageId),
                                        (''chatId'', chatId')])])))))"

text \<open>
  The loop of the \<^verbatim>\<open>create_chat\<close> handler:
  \<^verbatim>\<open>
  participants.forEach(participantId => {
    const participantSocket = findUserSocket(participantId);
    if (participantSocket) {
      participantSocket.join(`chat:${chatRoom.id}`);
      participantSocket.emit('chat_created', chatRoom);
    }
  });
  \<close>
  A throw inside the callback ends the loop; what was done for the earlier participants
  stays done.
\<close>

fun notify_participants ::
  "runtime \<Rightarrow> io_server \<Rightarrow> js \<Rightarrow> js list \<Rightarrow> (error + unit) \<times> io_server \<times> effect list" where
  "notify_participants rt io chatRoom [] = (Inr (), io, [])"
| "notify_participants rt io chatRoom (participantId # later) =
     (case findUserSocket rt io participantId of
        Inl e \<Rightarrow> (Inl e, io, [])
      | Inr None \<Rightarrow> notify_participants rt io chatRoom later
      | Inr (Some participantSocket) \<Rightarrow>
          (case get_prop chatRoom ''id'' of
             Inl e \<Rightarrow> (Inl e, io, [])
           | Inr room_id \<Rightarrow>
               (case String_of rt room_id of
                  Inl e \<Rightarrow> (Inl e, io, [])
                | Inr r \<Rightarrow>
                    (case notify_participants rt
                            (join io (socket_id participantSocket) (''chat:'' @ r))
                            chatRoom later of
                       (res, io', es) \<Rightarrow>
                         (res, io',
                          [Join (socket_id participantSocket) (''chat:'' @ r),
                           Emit (ToSocket (socket_id participantSocket))
                             ''chat_created'' chatRoom]
                          @ es)))))"

text \<open>
  \<^verbatim>\<open>
  socket.on('create_chat', async (data) => {
    try {
      const { name, participants, isGroup } = data;
      const chatRoom = await createNewChatRoom(name, participants, isGroup, userId);
      participants.forEach(participantId => { ... });
      socket.emit('chat_created', chatRoom);
    } catch (error) {
      socket.emit('error', { message: 'Failed to create chat' });
    }
  });
  \<close>
  \<^verbatim>\<open>participants.forEach\<close> throws a TypeError unless \<^verbatim>\<open>participants\<close> is an array.
\<close>

definition on_create_chat ::
  "runtime \<Rightarrow> int \<Rightarrow> io_server \<Rightarrow> socket \<Rightarrow> js \<Rightarrow> io_server \<times> effect list" where
  "on_create_chat rt now io sock data =
     (case (case get_prop data ''name'' of
              Inl e \<Rightarrow> (Inl e, io, [])
            | Inr name' \<Rightarrow>
                (case get_prop data ''participants'' of
                   Inl e \<Rightarrow> (Inl e, io, [])
                 | Inr participants' \<Rightarrow>
                     (case get_prop data ''isGroup'' of
                        Inl e \<Rightarrow> (Inl e, io, [])
                      | Inr isGroup' \<Rightarrow>
                          (case createNewChatRoom rt now name' participants' isGroup'
                                  (socket_user sock) of
                             (chatRoom, es) \<Rightarrow>
                               (case participants' of
                                  Arr ids \<Rightarrow>
                                    (case notify_participants rt io chatRoom ids of
                                       (Inl e, io', es') \<Rightarrow> (Inl e, io', es @ es')
                                     | (Inr notified, io', es') \<Rightarrow>
                                         (Inr (), io',
                                          es @ es'
                                             @ [Emit (ToSocket (socket_id sock))
                                                  ''chat_created'' chatRoom]))
                                | other \<Rightarrow> (Inl TypeError, io, es)))))) of
        (Inr done, io', es) \<Rightarrow> (io', es)
      | (Inl e, io', es) \<Rightarrow>
          (io', es @ [Emit (ToSocket (socket_id sock)) ''error''
                        (Obj [(''message'', Str ''Failed to create chat'')])]))"

section \<open>A runtime and brokers for examples\<close>

text \<open>
  A runtime that parses and prints the few texts the examples below use; a channel on
  which every call succeeds and one on which every call is refused; brokers that are up,
  that refuse the connection, that refuse the channel and that refuse a queue; and the
  reading of a string as an ObjectId (24 hexadecimal digits in either case spell the id
  that prints them in lower case, any other string is refused).
\<close>

definition sample_runtime :: runtime where
  "sample_runtime =
     \<lparr>JSON_parse = (\<lambda>t. if t = ''null'' then Inr Null
                         else if t = ''{}'' then Inr (Obj [])
                         else if t = ''{\"chatId\":\"room1\"}''
                           then Inr (Obj [(''chatId'', Str ''room1'')])
                         else Inl SyntaxError),
      JSON_stringify = (\<lambda>v. if v = Undefined then None
                             else if v = Null then Some ''null''
                             else if v = Obj [] then Some ''{}''
                             else Some ''{...}''),
      Number_toString = (\<lambda>n. if n = 0 then ''0'' else ''1700000000000''),
      Date_toString = (\<lambda>d. ''Tue Nov 14 2023 22:13:20 GMT+0000'')\<rparr>"

definition open_channel :: amqp_channel where
  "open_channel = \<lparr>assertQueue = (\<lambda>q d. None), sendToQueue = (\<lambda>q b p. Inr True)\<rparr>"

definition refusing_channel :: amqp_channel where
  "refusing_channel =
     \<lparr>assertQueue = (\<lambda>q d. Some (Error ''Channel closed'')),
      sendToQueue = (\<lambda>q b p. Inl (Error ''Channel closed''))\<rparr>"

definition broker_up :: "string \<Rightarrow> error + amqp_connection" where
  "broker_up address = Inr \<lparr>createChannel = Inr open_channel\<rparr>"

definition broker_down :: "string \<Rightarrow> error + amqp_connection" where
  "broker_down address = Inl (Error ''ECONNREFUSED'')"

definition broker_without_channel :: "string \<Rightarrow> error + amqp_connection" where
  "broker_without_channel address = Inr \<lparr>createChannel = Inl (Error ''Channel refused'')\<rparr>"

definition broker_without_queues :: "string \<Rightarrow> error + amqp_connection" where
  "broker_without_queues address = Inr \<lparr>createChannel = Inr refusing_channel\<rparr>"

definition broker_without_notifications :: "string \<Rightarrow> error + amqp_connection" where
  "broker_without_notifications address =
     Inr \<lparr>createChannel =
            Inr \<lparr>assertQueue = (\<lambda>q d. if q = ''notifications''
                                        then Some (Error ''Queue refused'') else None),
                 sendToQueue = (\<lambda>q b p. Inr True)\<rparr>\<rparr>"

definition hex_digit :: "char \<Rightarrow> char option" where
  "hex_digit = map_of (zip ''0123456789abcdefABCDEF'' ''0123456789abcdefabcdef'')"

definition sample_castObjectId :: "string \<Rightarrow> error + object_id" where
  "sample_castObjectId s =
     (if length s = 24 \<and> list_all (\<lambda>c. hex_digit c \<noteq> None) s
      then Inr (ObjectId (map (\<lambda>c. case hex_digit c of None \<Rightarrow> c | Some d \<Rightarrow> d) s))
      else Inl CastError)"

section \<open>Properties of the chat documents\<close>

lemma toString_inject: "toString a = toString b \<longleftrightarrow> a = b"
  by (cases a; cases b) simp

lemma includes_id_canonical:
  assumes "toString i = user_id_toString u"
  shows "includes_id ps u \<longleftrightarrow> i \<in> set ps"
proof
  assume "includes_id ps u"
  then obtain x where "x \<in> set ps" "toString x = toString i"
    using assms by (auto simp: includes_id_def)
  then show "i \<in> set ps" by (simp add: toString_inject)
next
  assume "i \<in> set ps"
  then have "toString i \<in> toString ` set ps" by (rule imageI)
  then show "includes_id ps u" using assms by (simp add: includes_id_def)
qed

text \<open>
  Claim C9, for a user id in the spelling it prints as. Let \<open>u\<close> be an ObjectId, or a
  string that the cast reads as an id \<open>i\<close> printing as that same string. Then
  \<open>addParticipant\<close> leaves the document unchanged when \<open>i\<close> is already a participant and
  appends \<open>i\<close> exactly once otherwise; \<open>removeParticipant\<close> removes every entry equal to
  \<open>i\<close>, keeps the others in their order, and changes nothing when \<open>i\<close> is absent; for
  \<open>i\<close> not present at the start, removing \<open>u\<close> after adding it gives back the original
  participants.
\<close>

theorem participants_add_remove:
  assumes "cast_participant castObjectId u = Inr i"
      and "toString i = user_id_toString u"
  shows "(i \<in> set (participants c) \<longrightarrow> addParticipant castObjectId c u = Inr (c, []))
   \<and> (i \<notin> set (participants c) \<longrightarrow>
        addParticipant castObjectId c u = Inr (c\<lparr>participants := participants c @ [i]\<rparr>, [Save])
        \<and> count_list (participants c @ [i]) i = 1)
   \<and> removeParticipant c u =
        (if i \<in> set (participants c)
         then (c\<lparr>participants := filter (\<lambda>x. x \<noteq> i) (participants c)\<rparr>, [Save])
         else (c, []))
   \<and> i \<notin> set (participants (fst (removeParticipant c u)))
   \<and> (i \<notin> set (participants c) \<longrightarrow>
        participants (fst (removeParticipant (c\<lparr>participants := participants c @ [i]\<rparr>) u))
          = participants c)"
proof -
  note inc = includes_id_canonical [OF assms(2)]
  have same: "(\<lambda>x. toString x \<noteq> user_id_toString u) = (\<lambda>x. x \<noteq> i)"
    using assms(2) by (auto simp: toString_inject [symmetric])
  have absent: "filter (\<lambda>x. x \<noteq> i) (participants c) = participants c"
    if "i \<notin> set (participants c)"
    using that by (induction "participants c") (auto simp: filter_id_conv)
  have add_in: "addParticipant castObjectId c u = Inr (c, [])" if "i \<in> set (participants c)"
    using that by (simp add: addParticipant_def inc)
  have add_out: "addParticipant castObjectId c u
                   = Inr (c\<lparr>participants := participants c @ [i]\<rparr>, [Save])"
    if "i \<notin> set (participants c)"
    using that assms(1) by (simp add: addParticipant_def inc)
  have once: "count_list (participants c @ [i]) i = 1" if "i \<notin> set (participants c)"
    using that by (simp add: count_list_0_iff)
  have rem: "removeParticipant c u =
        (if i \<in> set (participants c)
         then (c\<lparr>participants := filter (\<lambda>x. x \<noteq> i) (participants c)\<rparr>, [Save])
         else (c, []))"
    by (simp add: removeParticipant_def inc same)
  have gone: "i \<notin> set (participants (fst (removeParticipant c u)))"
    by (simp add: rem)
  have restored:
    "participants (fst (removeParticipant (c\<lparr>participants := participants c @ [i]\<rparr>) u))
       = participants c"
    if "i \<notin> set (participants c)"
    using that absent by (simp add: removeParticipant_def inc same)
  from add_in add_out once rem gone restored show ?thesis by simp
qed

theorem participants_add_remove_witness:
  "addParticipant sample_castObjectId
      \<lparr>name = None, isGroup = False, participants = [ObjectId ''a'', ObjectId ''c''],
       admins = [], createdBy = ObjectId ''a''\<rparr> (Oid (ObjectId ''b''))
     = Inr (\<lparr>name = None, isGroup = False,
             participants = [ObjectId ''a'', ObjectId ''c'', ObjectId ''b''],
             admins = [], createdBy = ObjectId ''a''\<rparr>, [Save])
   \<and> removeParticipant
      \<lparr>name = None, isGroup = False,
       participants = [ObjectId ''a'', ObjectId ''c'', ObjectId ''b''],
       admins = [], createdBy = ObjectId ''a''\<rparr> (Oid (ObjectId ''b''))
     = (\<lparr>name = None, isGroup = False, participants = [ObjectId ''a'', ObjectId ''c''],
         admins = [], createdBy = ObjectId ''a''\<rparr>, [Save])
   \<and> addParticipant sample_castObjectId
      \<lparr>name = None, isGroup = False,
       participants = [ObjectId ''507f1f77bcf86cd799439011''],
       admins = [], createdBy = ObjectId ''a''\<rparr> (IdString ''507f1f77bcf86cd799439011'')
     = Inr (\<lparr>name = None, isGroup = False,
             participants = [ObjectId ''507f1f77bcf86cd799439011''],
             admins = [], createdBy = ObjectId ''a''\<rparr>, [])"
proof -
  have b: "cast_participant sample_castObjectId (Oid (ObjectId ''b'')) = Inr (ObjectId ''b'')"
          "toString (ObjectId ''b'') = user_id_toString (Oid (ObjectId ''b''))"
    by (simp_all add: cast_participant_def)
  have s: "cast_participant sample_castObjectId (IdString ''507f1f77bcf86cd799439011'')
             = Inr (ObjectId ''507f1f77bcf86cd799439011'')"
          "toString (ObjectId ''507f1f77bcf86cd799439011'')
             = user_id_toString (IdString ''507f1f77bcf86cd799439011'')"
    by (simp_all add: cast_participant_def sample_castObjectId_def hex_digit_def)
  show ?thesis
    using
      participants_add_remove [OF b, where c =
        "\<lparr>name = None, isGroup = False, participants = [ObjectId ''a'', ObjectId ''c''],
          admins = [], createdBy = ObjectId ''a''\<rparr>"]
      participants_add_remove [OF b, where c =
        "\<lparr>name = None, isGroup = False,
          participants = [ObjectId ''a'', ObjectId ''c'', ObjectId ''b''],
          admins = [], createdBy = ObjectId ''a''\<rparr>"]
      participants_add_remove [OF s, where c =
        "\<lparr>name = None, isGroup = False,
          participants = [ObjectId ''507f1f77bcf86cd799439011''],
          admins = [], createdBy = ObjectId ''a''\<rparr>"]
    by simp
qed

text \<open>
  Claim C9 as stated covers every user id. A string that spells a participant's id in
  upper case is not found by \<open>includes_id\<close>, while the cast reads it as that id: adding it
  stores the participant a second time, and removing it removes nothing.
\<close>

theorem participants_upper_case_duplicate:
  "addParticipant sample_castObjectId
      \<lparr>name = None, isGroup = False,
       participants = [ObjectId ''507f1f77bcf86cd799439011''],
       admins = [], createdBy = ObjectId ''507f1f77bcf86cd799439011''\<rparr>
      (IdString ''507F1F77BCF86CD799439011'')
     = Inr (\<lparr>name = None, isGroup = False,
             participants = [ObjectId ''507f1f77bcf86cd799439011'',
                             ObjectId ''507f1f77bcf86cd799439011''],
             admins = [], createdBy = ObjectId ''507f1f77bcf86cd799439011''\<rparr>, [Save])
   \<and> removeParticipant
      \<lparr>name = None, isGroup = False,
       participants = [ObjectId ''507f1f77bcf86cd799439011''],
       admins = [], createdBy = ObjectId ''507f1f77bcf86cd799439011''\<rparr>
      (IdString ''507F1F77BCF86CD799439011'')
     = (\<lparr>name = None, isGroup = False,
         participants = [ObjectId ''507f1f77bcf86cd799439011''],
         admins = [], createdBy = ObjectId ''507f1f77bcf86cd799439011''\<rparr>, [])"
  by (simp add: addParticipant_def removeParticipant_def includes_id_def cast_participant_def
                sample_castObjectId_def hex_digit_def)

section \<open>Properties of the message documents\<close>

lemma validate_attachments_no_required: "Required p \<notin> set (validate_attachments i as)"
  by (induction as arbitrary: i) (auto split: option.splits)

lemma validate_attachments_ok:
  "(\<forall>a\<in>set as. case type_a a of None \<Rightarrow> True | Some t \<Rightarrow> t \<in> set attachment_types)
     \<Longrightarrow> validate_attachments i as = []"
  by (induction as arbitrary: i) (auto split: option.splits)

text \<open>
  Claim C10. Validation of a message document requires \<^verbatim>\<open>content\<close> exactly when the
  list of attachments is empty or absent: a message with at least one attachment may omit
  the content, a message with neither content nor attachments is invalid, and
  \<^verbatim>\<open>chatId\<close> and \<^verbatim>\<open>sender\<close> are required in every case.
\<close>

theorem message_validation:
  "(content_required m \<longleftrightarrow> attachments m = None \<or> attachments m = Some [])
   \<and> (Required ''content'' \<in> set (validate_message m) \<longleftrightarrow>
        content_required m \<and> (content m = None \<or> content m = Some []))
   \<and> (Required ''chatId'' \<in> set (validate_message m) \<longleftrightarrow> chatId m = None)
   \<and> (Required ''sender'' \<in> set (validate_message m) \<longleftrightarrow> sender m = None)
   \<and> (chatId m \<noteq> None \<and> sender m \<noteq> None \<and> content m = None
        \<and> attachments m = Some (a # as)
        \<and> (\<forall>x\<in>set (a # as). case type_a x of None \<Rightarrow> True | Some t \<Rightarrow> t \<in> set attachment_types)
        \<longrightarrow> validate_message m = [])
   \<and> (content m = None \<and> (attachments m = None \<or> attachments m = Some [])
        \<longrightarrow> Required ''content'' \<in> set (validate_message m) \<and> validate_message m \<noteq> [])"
proof -
  have req: "content_required m \<longleftrightarrow> attachments m = None \<or> attachments m = Some []"
    by (simp add: content_required_def split: option.splits)
  have present: "check_required_string (content m) \<longleftrightarrow> \<not> (content m = None \<or> content m = Some [])"
    by (simp add: check_required_string_def split: option.splits)
  have c: "Required ''content'' \<in> set (validate_message m) \<longleftrightarrow>
        content_required m \<and> (content m = None \<or> content m = Some [])"
    using present by (auto simp: validate_message_def validate_attachments_no_required split: option.splits)
  have i: "Required ''chatId'' \<in> set (validate_message m) \<longleftrightarrow> chatId m = None"
    by (auto simp: validate_message_def validate_attachments_no_required split: option.splits)
  have s: "Required ''sender'' \<in> set (validate_message m) \<longleftrightarrow> sender m = None"
    by (auto simp: validate_message_def validate_attachments_no_required split: option.splits)
  have ok: "validate_message m = []"
    if "chatId m \<noteq> None" "sender m \<noteq> None" "content m = None" "attachments m = Some (a # as)"
       "\<forall>x\<in>set (a # as). case type_a x of None \<Rightarrow> True | Some t \<Rightarrow> t \<in> set attachment_types"
    using that validate_attachments_ok [of "a # as" 0]
    by (simp add: validate_message_def content_required_def)
  have bad: "Required ''content'' \<in> set (validate_message m) \<and> validate_message m \<noteq> []"
    if "content m = None \<and> (attachments m = None \<or> attachments m = Some [])"
    using that c req by auto
  from req c i s ok bad show ?thesis by blast
qed

theorem message_validation_witness:
  "validate_message \<lparr>chatId = Some (ObjectId ''c1''), sender = Some (ObjectId ''u1''), content = None,
       attachments = Some [\<lparr>type_a = Some ''image'', url = Some ''u'', thumbnail = None,
                             name_a = None, size_a = None, metadata = Undefined\<rparr>],
       replyTo = None, deliveredTo = [], readBy = [], deleted = False\<rparr> = []
   \<and> Required ''content'' \<in> set (validate_message
        \<lparr>chatId = Some (ObjectId ''c1''), sender = Some (ObjectId ''u1''), content = None,
         attachments = Some [], replyTo = None, deliveredTo = [], readBy = [], deleted = False\<rparr>)"
  using message_validation
    [of "\<lparr>chatId = Some (ObjectId ''c1''), sender = Some (ObjectId ''u1''), content = None,
       attachments = Some [\<lparr>type_a = Some ''image'', url = Some ''u'', thumbnail = None,
                             name_a = None, size_a = None, metadata = Undefined\<rparr>],
       replyTo = None, deliveredTo = [], readBy = [], deleted = False\<rparr>"
       "\<lparr>type_a = Some ''image'', url = Some ''u'', thumbnail = None,
                             name_a = None, size_a = None, metadata = Undefined\<rparr>" "[]"]
    message_validation
    [of "\<lparr>chatId = Some (ObjectId ''c1''), sender = Some (ObjectId ''u1''), content = None,
         attachments = Some [], replyTo = None, deliveredTo = [], readBy = [], deleted = False\<rparr>"]
  by (simp add: attachment_types_def)

section \<open>Properties of the queue consumers\<close>

lemma queueNotification_effects:
  "e \<in> set (snd (queueNotification rt this n)) \<Longrightarrow> \<exists>b. e = SendToQueue ''notifications'' b True"
  by (auto simp: queueNotification_def split: option.splits)

lemma queueMessage_effects:
  "e \<in> set (snd (queueMessage rt this n)) \<Longrightarrow> \<exists>b. e = SendToQueue ''chat_messages'' b True"
  by (auto simp: queueMessage_def split: option.splits)

lemma processMessage_effects:
  "e \<in> set (snd (processMessage rt this x)) \<Longrightarrow>
     (\<exists>l. e = Log l) \<or> (\<exists>b. e = SendToQueue ''notifications'' b True)"
proof (cases "notification_of x")
  case (Inl err)
  assume "e \<in> set (snd (processMessage rt this x))"
  with Inl show ?thesis by (simp add: processMessage_def)
next
  case (Inr n)
  assume "e \<in> set (snd (processMessage rt this x))"
  with Inr have "e = Log (''Processing message: '' @ stringified rt x)
      \<or> e \<in> set (snd (queueNotification rt this n))"
    by (cases "queueNotification rt this n") (auto simp: processMessage_def Let_def split: sum.splits)
  then show ?thesis using queueNotification_effects by blast
qed

lemma on_chat_message_Some:
  "channel this = Some ch \<Longrightarrow>
   on_chat_message rt this (Some m) =
     (case JSON_parse rt (content_text m) of
        Inl e \<Rightarrow> [LogError ''Error processing message:'' e, Nack m]
      | Inr parsed \<Rightarrow>
          (case fst (processMessage rt this parsed) of
             Inl e \<Rightarrow> snd (processMessage rt this parsed)
                        @ [LogError ''Error processing message:'' e, Nack m]
           | Inr done \<Rightarrow> snd (processMessage rt this parsed) @ [Ack m]))"
  by (cases "processMessage rt this (projr (JSON_parse rt (content_text m)))")
     (auto simp: on_chat_message_def channel_call_def split: sum.splits prod.splits)

lemma on_notification_Some:
  "channel this = Some ch \<Longrightarrow>
   on_notification rt this (Some m) =
     (case JSON_parse rt (content_text m) of
        Inl e \<Rightarrow> [LogError ''Error processing notification:'' e, Nack m]
      | Inr parsed \<Rightarrow>
          [Log (''Processing notification: '' @ stringified rt parsed), Ack m])"
  by (auto simp: on_notification_def processNotification_def channel_call_def split: sum.splits)

lemma notification_of_cases:
  "(v = Null \<or> v = Undefined \<longrightarrow> notification_of v = Inl TypeError)
   \<and> (v \<noteq> Null \<and> v \<noteq> Undefined \<longrightarrow>
        (\<exists>i c r. get_prop v ''id'' = Inr i \<and> get_prop v ''chatId'' = Inr c
                 \<and> get_prop v ''recipients'' = Inr r
                 \<and> notification_of v =
                     Inr (Obj [(''type'', Str ''message_delivered''), (''messageId'', i),
                               (''chatId'', c), (''recipients'', r)])))"
  by (cases v) (simp_all add: notification_of_def)

text \<open>
  Claim C3. For both consumers and every item delivered on the queue's channel. The chat
  consumer parses the item, prints the message, derives the notification and sends it to
  the \<^verbatim>\<open>notifications\<close> queue, and acknowledges the item after that; when the item does
  not parse, when the message is \<^verbatim>\<open>null\<close>, when the notification cannot be serialized
  or when the broker refuses it, the consumer acknowledges nothing and negatively
  acknowledges the item. The notifications consumer parses the item, prints the
  notification and acknowledges the item, or negatively acknowledges an item that does not
  parse; it sends nothing to any queue. So an item is acknowledged if and only if every step
  of its processing went through, and negatively acknowledged if and only if one failed.
\<close>

theorem consumer_ack_iff:
  assumes "channel this = Some ch"
  shows "(JSON_parse rt (content_text m) = Inl e \<longrightarrow>
            on_chat_message rt this (Some m)
              = [LogError ''Error processing message:'' e, Nack m]
            \<and> on_notification rt this (Some m)
              = [LogError ''Error processing notification:'' e, Nack m])
       \<and> (JSON_parse rt (content_text m) = Inr parsed \<longrightarrow>
            on_notification rt this (Some m)
              = [Log (''Processing notification: '' @ stringified rt parsed), Ack m])
       \<and> (JSON_parse rt (content_text m) = Inr parsed \<and> (parsed = Null \<or> parsed = Undefined)
            \<longrightarrow>
            on_chat_message rt this (Some m)
              = [Log (''Processing message: '' @ stringified rt parsed),
                 LogError ''Error processing message:'' TypeError, Nack m])
       \<and> (JSON_parse rt (content_text m) = Inr parsed
            \<and> get_prop parsed ''id'' = Inr i \<and> get_prop parsed ''chatId'' = Inr c
            \<and> get_prop parsed ''recipients'' = Inr r
            \<and> JSON_stringify rt (Obj [(''type'', Str ''message_delivered''), (''messageId'', i),
                                      (''chatId'', c), (''recipients'', r)]) = None \<longrightarrow>
            on_chat_message rt this (Some m)
              = [Log (''Processing message: '' @ stringified rt parsed),
                 LogError ''Error processing message:'' TypeError, Nack m])
       \<and> (JSON_parse rt (content_text m) = Inr parsed
            \<and> get_prop parsed ''id'' = Inr i \<and> get_prop parsed ''chatId'' = Inr c
            \<and> get_prop parsed ''recipients'' = Inr r
            \<and> JSON_stringify rt (Obj [(''type'', Str ''message_delivered''), (''messageId'', i),
                                      (''chatId'', c), (''recipients'', r)]) = Some b
            \<and> sendToQueue ch ''notifications'' b True = Inl e \<longrightarrow>
            on_chat_message rt this (Some m)
              = [Log (''Processing message: '' @ stringified rt parsed),
                 SendToQueue ''notifications'' b True,
                 LogError ''Error processing message:'' e, Nack m])
       \<and> (JSON_parse rt (content_text m) = Inr parsed
            \<and> get_prop parsed ''id'' = Inr i \<and> get_prop parsed ''chatId'' = Inr c
            \<and> get_prop parsed ''recipients'' = Inr r
            \<and> JSON_stringify rt (Obj [(''type'', Str ''message_delivered''), (''messageId'', i),
                                      (''chatId'', c), (''recipients'', r)]) = Some b
            \<and> sendToQueue ch ''notifications'' b True = Inr sent \<longrightarrow>
            on_chat_message rt this (Some m)
              = [Log (''Processing message: '' @ stringified rt parsed),
                 SendToQueue ''notifications'' b True, Ack m])
       \<and> (Ack m \<in> set (on_chat_message rt this (Some m)) \<longleftrightarrow>
            (\<exists>v n t s. JSON_parse rt (content_text m) = Inr v \<and> notification_of v = Inr n
                       \<and> JSON_stringify rt n = Some t
                       \<and> sendToQueue ch ''notifications'' t True = Inr s))
       \<and> (Nack m \<in> set (on_chat_message rt this (Some m)) \<longleftrightarrow>
            Ack m \<notin> set (on_chat_message rt this (Some m)))
       \<and> (Ack m \<in> set (on_notification rt this (Some m)) \<longleftrightarrow>
            (\<exists>v. JSON_parse rt (content_text m) = Inr v))
       \<and> (Nack m \<in> set (on_notification rt this (Some m)) \<longleftrightarrow>
            Ack m \<notin> set (on_notification rt this (Some m)))
       \<and> SendToQueue q b' p \<notin> set (on_notification rt this (Some m))"
proof -
  let ?n = "Obj [(''type'', Str ''message_delivered''), (''messageId'', i),
                 (''chatId'', c), (''recipients'', r)]"
  have unparsed: "on_chat_message rt this (Some m)
              = [LogError ''Error processing message:'' e, Nack m]
            \<and> on_notification rt this (Some m)
              = [LogError ''Error processing notification:'' e, Nack m]"
    if "JSON_parse rt (content_text m) = Inl e"
    using that by (simp add: on_chat_message_Some [OF assms] on_notification_Some [OF assms])
  have notified: "on_notification rt this (Some m)
              = [Log (''Processing notification: '' @ stringified rt parsed), Ack m]"
    if "JSON_parse rt (content_text m) = Inr parsed"
    using that by (simp add: on_notification_Some [OF assms])
  have nullish: "on_chat_message rt this (Some m)
              = [Log (''Processing message: '' @ stringified rt parsed),
                 LogError ''Error processing message:'' TypeError, Nack m]"
    if "JSON_parse rt (content_text m) = Inr parsed \<and> (parsed = Null \<or> parsed = Undefined)"
    using that
    by (auto simp: on_chat_message_Some [OF assms] processMessage_def notification_of_def)
  have n: "notification_of parsed = Inr ?n"
    if "get_prop parsed ''id'' = Inr i" "get_prop parsed ''chatId'' = Inr c"
       "get_prop parsed ''recipients'' = Inr r"
    using that by (simp add: notification_of_def)
  have unserialized: "on_chat_message rt this (Some m)
              = [Log (''Processing message: '' @ stringified rt parsed),
                 LogError ''Error processing message:'' TypeError, Nack m]"
    if "JSON_parse rt (content_text m) = Inr parsed
            \<and> get_prop parsed ''id'' = Inr i \<and> get_prop parsed ''chatId'' = Inr c
            \<and> get_prop parsed ''recipients'' = Inr r
            \<and> JSON_stringify rt ?n = None"
    using that n assms
    by (simp add: on_chat_message_Some [OF assms] processMessage_def queueNotification_def)
  have refused: "on_chat_message rt this (Some m)
              = [Log (''Processing message: '' @ stringified rt parsed),
                 SendToQueue ''notifications'' b True,
                 LogError ''Error processing message:'' e, Nack m]"
    if "JSON_parse rt (content_text m) = Inr parsed
            \<and> get_prop parsed ''id'' = Inr i \<and> get_prop parsed ''chatId'' = Inr c
            \<and> get_prop parsed ''recipients'' = Inr r
            \<and> JSON_stringify rt ?n = Some b
            \<and> sendToQueue ch ''notifications'' b True = Inl e"
    using that n assms
    by (simp add: on_chat_message_Some [OF assms] processMessage_def queueNotification_def)
  have accepted: "on_chat_message rt this (Some m)
              = [Log (''Processing message: '' @ stringified rt parsed),
                 SendToQueue ''notifications'' b True, Ack m]"
    if "JSON_parse rt (content_text m) = Inr parsed
            \<and> get_prop parsed ''id'' = Inr i \<and> get_prop parsed ''chatId'' = Inr c
            \<and> get_prop parsed ''recipients'' = Inr r
            \<and> JSON_stringify rt ?n = Some b
            \<and> sendToQueue ch ''notifications'' b True = Inr sent"
    using that n assms
    by (simp add: on_chat_message_Some [OF assms] processMessage_def queueNotification_def)
  have quiet: "Ack m \<notin> set (snd (processMessage rt this x))"
              "Nack m \<notin> set (snd (processMessage rt this x))" for x
    using processMessage_effects [of "Ack m" rt this x]
          processMessage_effects [of "Nack m" rt this x] by auto
  have pm: "fst (processMessage rt this v) = Inr () \<longleftrightarrow>
              (\<exists>n t s. notification_of v = Inr n \<and> JSON_stringify rt n = Some t
                       \<and> sendToQueue ch ''notifications'' t True = Inr s)" for v
    using assms
    by (auto simp: processMessage_def queueNotification_def Let_def
             split: sum.splits option.splits)
  have chat_ack: "Ack m \<in> set (on_chat_message rt this (Some m)) \<longleftrightarrow>
            (\<exists>v n t s. JSON_parse rt (content_text m) = Inr v \<and> notification_of v = Inr n
                       \<and> JSON_stringify rt n = Some t
                       \<and> sendToQueue ch ''notifications'' t True = Inr s)"
  proof -
    have "Ack m \<in> set (on_chat_message rt this (Some m)) \<longleftrightarrow>
            (\<exists>v. JSON_parse rt (content_text m) = Inr v
                  \<and> fst (processMessage rt this v) = Inr ())"
      using quiet by (auto simp: on_chat_message_Some [OF assms] split: sum.splits)
    then show ?thesis unfolding pm by blast
  qed
  have chat_nack: "Nack m \<in> set (on_chat_message rt this (Some m)) \<longleftrightarrow>
            Ack m \<notin> set (on_chat_message rt this (Some m))"
    using quiet by (auto simp: on_chat_message_Some [OF assms] split: sum.splits)
  have note_ack: "Ack m \<in> set (on_notification rt this (Some m)) \<longleftrightarrow>
            (\<exists>v. JSON_parse rt (content_text m) = Inr v)"
    by (auto simp: on_notification_Some [OF assms] split: sum.splits)
  have note_nack: "Nack m \<in> set (on_notification rt this (Some m)) \<longleftrightarrow>
            Ack m \<notin> set (on_notification rt this (Some m))"
    by (auto simp: on_notification_Some [OF assms] split: sum.splits)
  have terminal: "SendToQueue q b' p \<notin> set (on_notification rt this (Some m))"
    by (auto simp: on_notification_Some [OF assms] split: sum.splits)
  show ?thesis
    apply (intro conjI)
    using unparsed apply blast
    using notified apply blast
    using nullish apply blast
    using unserialized apply blast
    using refused apply blast
    using accepted apply blast
    using chat_ack apply blast
    using chat_nack apply blast
    using note_ack apply blast
    using note_nack apply blast
    using terminal apply blast
    done
qed

theorem consumer_ack_iff_witness:
  "on_chat_message sample_runtime \<lparr>connection = None, channel = Some open_channel\<rparr>
      (Some \<lparr>deliveryTag = 1, content_text = ''{\"chatId\":\"room1\"}''\<rparr>)
     = [Log ''Processing message: {...}'', SendToQueue ''notifications'' ''{...}'' True,
        Ack \<lparr>deliveryTag = 1, content_text = ''{\"chatId\":\"room1\"}''\<rparr>]
   \<and> on_chat_message sample_runtime \<lparr>connection = None, channel = Some refusing_channel\<rparr>
      (Some \<lparr>deliveryTag = 1, content_text = ''{\"chatId\":\"room1\"}''\<rparr>)
     = [Log ''Processing message: {...}'', SendToQueue ''notifications'' ''{...}'' True,
        LogError ''Error processing message:'' (Error ''Channel closed''),
        Nack \<lparr>deliveryTag = 1, content_text = ''{\"chatId\":\"room1\"}''\<rparr>]
   \<and> on_chat_message sample_runtime \<lparr>connection = None, channel = Some open_channel\<rparr>
      (Some \<lparr>deliveryTag = 2, content_text = ''null''\<rparr>)
     = [Log ''Processing message: null'',
        LogError ''Error processing message:'' TypeError,
        Nack \<lparr>deliveryTag = 2, content_text = ''null''\<rparr>]
   \<and> on_notification sample_runtime \<lparr>connection = None, channel = Some open_channel\<rparr>
      (Some \<lparr>deliveryTag = 3, content_text = ''{''\<rparr>)
     = [LogError ''Error processing notification:'' SyntaxError,
        Nack \<lparr>deliveryTag = 3, content_text = ''{''\<rparr>]
   \<and> on_notification sample_runtime \<lparr>connection = None, channel = Some open_channel\<rparr>
      (Some \<lparr>deliveryTag = 4, content_text = ''{}''\<rparr>)
     = [Log ''Processing notification: {}'',
        Ack \<lparr>deliveryTag = 4, content_text = ''{}''\<rparr>]"
proof -
  let ?open = "\<lparr>connection = None, channel = Some open_channel\<rparr>"
  let ?refusing = "\<lparr>connection = None, channel = Some refusing_channel\<rparr>"
  let ?n = "Obj [(''type'', Str ''message_delivered''), (''messageId'', Undefined),
                 (''chatId'', Str ''room1''), (''recipients'', Undefined)]"
  have o: "channel ?open = Some open_channel" and r: "channel ?refusing = Some refusing_channel"
    by simp_all
  have parse:
    "JSON_parse sample_runtime ''{\"chatId\":\"room1\"}'' = Inr (Obj [(''chatId'', Str ''room1'')])"
    "JSON_parse sample_runtime ''{}'' = Inr (Obj [])"
    "JSON_parse sample_runtime ''null'' = Inr Null"
    "JSON_parse sample_runtime ''{'' = Inl SyntaxError"
    by (simp_all add: sample_runtime_def)
  have print:
    "JSON_stringify sample_runtime ?n = Some ''{...}''"
    "stringified sample_runtime (Obj [(''chatId'', Str ''room1'')]) = ''{...}''"
    "stringified sample_runtime (Obj []) = ''{}''"
    "stringified sample_runtime Null = ''null''"
    by (simp_all add: sample_runtime_def stringified_def)
  have send:
    "sendToQueue open_channel ''notifications'' ''{...}'' True = Inr True"
    "sendToQueue refusing_channel ''notifications'' ''{...}'' True = Inl (Error ''Channel closed'')"
    by (simp_all add: open_channel_def refusing_channel_def)
  have t1: "on_chat_message sample_runtime ?open
      (Some \<lparr>deliveryTag = 1, content_text = ''{\"chatId\":\"room1\"}''\<rparr>)
     = [Log ''Processing message: {...}'', SendToQueue ''notifications'' ''{...}'' True,
        Ack \<lparr>deliveryTag = 1, content_text = ''{\"chatId\":\"room1\"}''\<rparr>]"
    using parse print send
      consumer_ack_iff [OF o, where rt = sample_runtime
        and m = "\<lparr>deliveryTag = 1, content_text = ''{\"chatId\":\"room1\"}''\<rparr>"
        and parsed = "Obj [(''chatId'', Str ''room1'')]" and i = Undefined
        and c = "Str ''room1''" and r = Undefined and b = "''{...}''" and sent = True
        and e = SyntaxError and q = "''notifications''" and b' = "''{...}''" and p = True]
    by simp
  have t2: "on_chat_message sample_runtime ?refusing
      (Some \<lparr>deliveryTag = 1, content_text = ''{\"chatId\":\"room1\"}''\<rparr>)
     = [Log ''Processing message: {...}'', SendToQueue ''notifications'' ''{...}'' True,
        LogError ''Error processing message:'' (Error ''Channel closed''),
        Nack \<lparr>deliveryTag = 1, content_text = ''{\"chatId\":\"room1\"}''\<rparr>]"
    using parse print send
      consumer_ack_iff [OF r, where rt = sample_runtime
        and m = "\<lparr>deliveryTag = 1, content_text = ''{\"chatId\":\"room1\"}''\<rparr>"
        and parsed = "Obj [(''chatId'', Str ''room1'')]" and i = Undefined
        and c = "Str ''room1''" and r = Undefined and b = "''{...}''" and sent = True
        and e = "Error ''Channel closed''" and q = "''notifications''" and b' = "''{...}''"
        and p = True]
    by simp
  have t3: "on_chat_message sample_runtime ?open
      (Some \<lparr>deliveryTag = 2, content_text = ''null''\<rparr>)
     = [Log ''Processing message: null'',
        LogError ''Error processing message:'' TypeError,
        Nack \<lparr>deliveryTag = 2, content_text = ''null''\<rparr>]"
    using parse print
      consumer_ack_iff [OF o, where rt = sample_runtime
        and m = "\<lparr>deliveryTag = 2, content_text = ''null''\<rparr>"
        and parsed = Null and i = Undefined
        and c = Undefined and r = Undefined and b = "''{...}''" and sent = True
        and e = SyntaxError and q = "''notifications''" and b' = "''{...}''" and p = True]
    by simp
  have t4: "on_notification sample_runtime ?open
      (Some \<lparr>deliveryTag = 3, content_text = ''{''\<rparr>)
     = [LogError ''Error processing notification:'' SyntaxError,
        Nack \<lparr>deliveryTag = 3, content_text = ''{''\<rparr>]"
    using parse
      consumer_ack_iff [OF o, where rt = sample_runtime
        and m = "\<lparr>deliveryTag = 3, content_text = ''{''\<rparr>"
        and parsed = Null and i = Undefined
        and c = Undefined and r = Undefined and b = "''{...}''" and sent = True
        and e = SyntaxError and q = "''notifications''" and b' = "''{...}''" and p = True]
    by simp
  have t5: "on_notification sample_runtime ?open
      (Some \<lparr>deliveryTag = 4, content_text = ''{}''\<rparr>)
     = [Log ''Processing notification: {}'',
        Ack \<lparr>deliveryTag = 4, content_text = ''{}''\<rparr>]"
    using parse print
      consumer_ack_iff [OF o, where rt = sample_runtime
        and m = "\<lparr>deliveryTag = 4, content_text = ''{}''\<rparr>"
        and parsed = "Obj []" and i = Undefined
        and c = Undefined and r = Undefined and b = "''{...}''" and sent = True
        and e = SyntaxError and q = "''notifications''" and b' = "''{...}''" and p = True]
    by simp
  from t1 t2 t3 t4 t5 show ?thesis by blast
qed

section \<open>Properties of initialization and enqueueing\<close>

lemma scheduled_append: "scheduled (es @ es') = scheduled es @ scheduled es'"
  by (induction es rule: scheduled.induct) auto

lemma initialize_try_cases:
  "(\<exists>e. initialize_try c mq = (Inl e, mq, [Connect ''amqp://localhost'']))
   \<or> (\<exists>e conn. initialize_try c mq =
         (Inl e, mq\<lparr>connection := Some conn\<rparr>, [Connect ''amqp://localhost'', CreateChannel]))
   \<or> (\<exists>e conn ch. initialize_try c mq =
         (Inl e, mq\<lparr>connection := Some conn, channel := Some ch\<rparr>,
          [Connect ''amqp://localhost'', CreateChannel, AssertQueue ''chat_messages'' True]))
   \<or> (\<exists>e conn ch. initialize_try c mq =
         (Inl e, mq\<lparr>connection := Some conn, channel := Some ch\<rparr>,
          [Connect ''amqp://localhost'', CreateChannel, AssertQueue ''chat_messages'' True,
           AssertQueue ''notifications'' True]))
   \<or> (\<exists>conn ch. initialize_try c mq =
         (Inr (), mq\<lparr>connection := Some conn, channel := Some ch\<rparr>,
          [Connect ''amqp://localhost'', CreateChannel, AssertQueue ''chat_messages'' True,
           AssertQueue ''notifications'' True, Log ''Message queue system initialized'',
           Consume ''chat_messages'', Consume ''notifications'']))"
  by (auto simp: initialize_try_def Let_def startMessageProcessing_def
           split: sum.splits option.splits)

lemma initialize_failure:
  assumes "fst (initialize_try c mq) = Inl e"
  shows "snd (initialize c mq) =
           snd (snd (initialize_try c mq))
             @ [LogError ''Failed to initialize message queue:'' e, SetTimeout Initialize 5000]"
    and "scheduled (snd (initialize c mq)) = [Initialize]"
    and "length (filter (\<lambda>x. x = Connect ''amqp://localhost'') (snd (initialize c mq))) = 1"
    and "length (filter (\<lambda>x. x = SetTimeout Initialize 5000) (snd (initialize c mq))) = 1"
  using assms initialize_try_cases [of c mq]
  by (auto simp: initialize_def)

lemma initialize_success:
  assumes "fst (initialize_try c mq) = Inr ()"
  shows "snd (initialize c mq) =
           [Connect ''amqp://localhost'', CreateChannel, AssertQueue ''chat_messages'' True,
            AssertQueue ''notifications'' True, Log ''Message queue system initialized'',
            Consume ''chat_messages'', Consume ''notifications'']"
  using assms initialize_try_cases [of c mq]
  by (auto simp: initialize_def)

lemma initialize_run_all_fail:
  "\<forall>c\<in>set cs. \<forall>mq'. isl (fst (initialize_try c mq')) \<Longrightarrow>
     length (filter (\<lambda>x. x = Connect ''amqp://localhost'') (snd (initialize_run cs mq))) = length cs
     \<and> length (filter (\<lambda>x. x = SetTimeout Initialize 5000) (snd (initialize_run cs mq))) = length cs"
proof (induction cs arbitrary: mq)
  case Nil
  then show ?case by simp
next
  case (Cons c cs)
  then have "isl (fst (initialize_try c mq))" by simp
  then obtain e where e: "fst (initialize_try c mq) = Inl e"
    by (cases "fst (initialize_try c mq)") auto
  obtain mq1 es where step: "initialize c mq = (mq1, es)" by (cases "initialize c mq")
  obtain mq2 es' where rest: "initialize_run cs mq1 = (mq2, es')"
    by (cases "initialize_run cs mq1")
  from initialize_failure [OF e] step
  have es: "scheduled es = [Initialize]"
       "length (filter (\<lambda>x. x = Connect ''amqp://localhost'') es) = 1"
       "length (filter (\<lambda>x. x = SetTimeout Initialize 5000) es) = 1"
    by simp_all
  from Cons.IH [of mq1] Cons.prems rest
  have ih: "length (filter (\<lambda>x. x = Connect ''amqp://localhost'') es') = length cs"
           "length (filter (\<lambda>x. x = SetTimeout Initialize 5000) es') = length cs"
    by simp_all
  from step rest es ih show ?case by simp
qed

lemma initialize_try_refused:
  "isl (fst (initialize_try a mq)) \<longleftrightarrow>
     (case a ''amqp://localhost'' of
        Inl e \<Rightarrow> True
      | Inr conn \<Rightarrow>
          (case createChannel conn of
             Inl e \<Rightarrow> True
           | Inr ch \<Rightarrow> assertQueue ch ''chat_messages'' True \<noteq> None
                         \<or> assertQueue ch ''notifications'' True \<noteq> None))"
  by (auto simp: initialize_try_def Let_def split: sum.splits option.splits)

lemma initialize_run_last:
  "\<forall>c\<in>set cs. \<forall>mq'. isl (fst (initialize_try c mq')) \<Longrightarrow> cs \<noteq> [] \<Longrightarrow>
     last (snd (initialize_run cs mq)) = SetTimeout Initialize 5000"
proof (induction cs arbitrary: mq)
  case Nil
  then show ?case by simp
next
  case (Cons c cs)
  then have "isl (fst (initialize_try c mq))" by simp
  then obtain e where e: "fst (initialize_try c mq) = Inl e"
    by (cases "fst (initialize_try c mq)") auto
  obtain mq1 es where step: "initialize c mq = (mq1, es)" by (cases "initialize c mq")
  obtain mq2 es' where rest: "initialize_run cs mq1 = (mq2, es')"
    by (cases "initialize_run cs mq1")
  from initialize_failure(1,2) [OF e] step
  have es: "scheduled es = [Initialize]" "last es = SetTimeout Initialize 5000" "es \<noteq> []"
    by auto
  show ?case
  proof (cases "cs = []")
    case True
    with step es show ?thesis by simp
  next
    case False
    with Cons.IH [of mq1] Cons.prems rest
    have "last es' = SetTimeout Initialize 5000" by simp
    moreover have "es' \<noteq> []"
    proof -
      obtain a as where "cs = a # as" using False by (cases cs) auto
      moreover have "snd (initialize a mq1) \<noteq> []"
        using initialize_try_cases [of a mq1] by (auto simp: initialize_def)
      ultimately show ?thesis
        using rest by (auto split: prod.splits if_splits)
    qed
    ultimately show ?thesis using step rest es by simp
  qed
qed

text \<open>
  Claim C8. An attempt of \<open>initialize\<close> connects to the broker, opens a channel and
  declares \<^verbatim>\<open>chat_messages\<close> and \<^verbatim>\<open>notifications\<close>, then starts the two consumers.
  When the broker refuses the connection, the channel or either declaration, the attempt
  stops there, reports the error and sets one timer, of 5000 milliseconds, that calls
  \<open>initialize\<close> again; an attempt that goes through sets none. No counter limits the
  retries: while the broker keeps refusing, \<open>n\<close> attempts set \<open>n\<close> timers, for every \<open>n\<close>,
  and the last thing done is to set the next one.
\<close>

theorem initialize_retries:
  "(c ''amqp://localhost'' = Inl e \<longrightarrow>
      initialize c mq =
        (mq, [Connect ''amqp://localhost'',
              LogError ''Failed to initialize message queue:'' e,
              SetTimeout Initialize 5000]))
   \<and> (c ''amqp://localhost'' = Inr conn \<and> createChannel conn = Inl e \<longrightarrow>
      initialize c mq =
        (mq\<lparr>connection := Some conn\<rparr>,
         [Connect ''amqp://localhost'', CreateChannel,
          LogError ''Failed to initialize message queue:'' e,
          SetTimeout Initialize 5000]))
   \<and> (c ''amqp://localhost'' = Inr conn \<and> createChannel conn = Inr ch
        \<and> assertQueue ch ''chat_messages'' True = Some e \<longrightarrow>
      initialize c mq =
        (mq\<lparr>connection := Some conn, channel := Some ch\<rparr>,
         [Connect ''amqp://localhost'', CreateChannel, AssertQueue ''chat_messages'' True,
          LogError ''Failed to initialize message queue:'' e,
          SetTimeout Initialize 5000]))
   \<and> (c ''amqp://localhost'' = Inr conn \<and> createChannel conn = Inr ch
        \<and> assertQueue ch ''chat_messages'' True = None
        \<and> assertQueue ch ''notifications'' True = Some e \<longrightarrow>
      initialize c mq =
        (mq\<lparr>connection := Some conn, channel := Some ch\<rparr>,
         [Connect ''amqp://localhost'', CreateChannel, AssertQueue ''chat_messages'' True,
          AssertQueue ''notifications'' True,
          LogError ''Failed to initialize message queue:'' e,
          SetTimeout Initialize 5000]))
   \<and> (c ''amqp://localhost'' = Inr conn \<and> createChannel conn = Inr ch
        \<and> assertQueue ch ''chat_messages'' True = None
        \<and> assertQueue ch ''notifications'' True = None \<longrightarrow>
      initialize c mq =
        (mq\<lparr>connection := Some conn, channel := Some ch\<rparr>,
         [Connect ''amqp://localhost'', CreateChannel, AssertQueue ''chat_messages'' True,
          AssertQueue ''notifications'' True, Log ''Message queue system initialized'',
          Consume ''chat_messages'', Consume ''notifications'']))
   \<and> (SetTimeout cb delay \<in> set (snd (initialize c mq)) \<longrightarrow> cb = Initialize \<and> delay = 5000)
   \<and> ((\<forall>a\<in>set cs.
          case a ''amqp://localhost'' of
            Inl x \<Rightarrow> True
          | Inr k \<Rightarrow>
              (case createChannel k of
                 Inl x \<Rightarrow> True
               | Inr h \<Rightarrow> assertQueue h ''chat_messages'' True \<noteq> None
                           \<or> assertQueue h ''notifications'' True \<noteq> None)) \<longrightarrow>
        length (filter (\<lambda>x. x = Connect ''amqp://localhost'') (snd (initialize_run cs mq)))
          = length cs
        \<and> length (filter (\<lambda>x. x = SetTimeout Initialize 5000) (snd (initialize_run cs mq)))
          = length cs
        \<and> (cs \<noteq> [] \<longrightarrow> last (snd (initialize_run cs mq)) = SetTimeout Initialize 5000))"
proof -
  have no_connection: "initialize c mq =
        (mq, [Connect ''amqp://localhost'',
              LogError ''Failed to initialize message queue:'' e,
              SetTimeout Initialize 5000])"
    if "c ''amqp://localhost'' = Inl e"
    using that by (simp add: initialize_def initialize_try_def)
  have no_channel: "initialize c mq =
        (mq\<lparr>connection := Some conn\<rparr>,
         [Connect ''amqp://localhost'', CreateChannel,
          LogError ''Failed to initialize message queue:'' e,
          SetTimeout Initialize 5000])"
    if "c ''amqp://localhost'' = Inr conn \<and> createChannel conn = Inl e"
    using that by (simp add: initialize_def initialize_try_def Let_def)
  have no_first: "initialize c mq =
        (mq\<lparr>connection := Some conn, channel := Some ch\<rparr>,
         [Connect ''amqp://localhost'', CreateChannel, AssertQueue ''chat_messages'' True,
          LogError ''Failed to initialize message queue:'' e,
          SetTimeout Initialize 5000])"
    if "c ''amqp://localhost'' = Inr conn \<and> createChannel conn = Inr ch
        \<and> assertQueue ch ''chat_messages'' True = Some e"
    using that by (simp add: initialize_def initialize_try_def Let_def)
  have no_second: "initialize c mq =
        (mq\<lparr>connection := Some conn, channel := Some ch\<rparr>,
         [Connect ''amqp://localhost'', CreateChannel, AssertQueue ''chat_messages'' True,
          AssertQueue ''notifications'' True,
          LogError ''Failed to initialize message queue:'' e,
          SetTimeout Initialize 5000])"
    if "c ''amqp://localhost'' = Inr conn \<and> createChannel conn = Inr ch
        \<and> assertQueue ch ''chat_messages'' True = None
        \<and> assertQueue ch ''notifications'' True = Some e"
    using that by (simp add: initialize_def initialize_try_def Let_def)
  have through: "initialize c mq =
        (mq\<lparr>connection := Some conn, channel := Some ch\<rparr>,
         [Connect ''amqp://localhost'', CreateChannel, AssertQueue ''chat_messages'' True,
          AssertQueue ''notifications'' True, Log ''Message queue system initialized'',
          Consume ''chat_messages'', Consume ''notifications''])"
    if "c ''amqp://localhost'' = Inr conn \<and> createChannel conn = Inr ch
        \<and> assertQueue ch ''chat_messages'' True = None
        \<and> assertQueue ch ''notifications'' True = None"
    using that
    by (simp add: initialize_def initialize_try_def Let_def startMessageProcessing_def)
  have timer: "cb = Initialize \<and> delay = 5000"
    if "SetTimeout cb delay \<in> set (snd (initialize c mq))"
    using that initialize_try_cases [of c mq] by (auto simp: initialize_def)
  have run: "length (filter (\<lambda>x. x = Connect ''amqp://localhost'') (snd (initialize_run cs mq)))
          = length cs
        \<and> length (filter (\<lambda>x. x = SetTimeout Initialize 5000) (snd (initialize_run cs mq)))
          = length cs
        \<and> (cs \<noteq> [] \<longrightarrow> last (snd (initialize_run cs mq)) = SetTimeout Initialize 5000)"
    if refused: "\<forall>a\<in>set cs.
          case a ''amqp://localhost'' of
            Inl x \<Rightarrow> True
          | Inr k \<Rightarrow>
              (case createChannel k of
                 Inl x \<Rightarrow> True
               | Inr h \<Rightarrow> assertQueue h ''chat_messages'' True \<noteq> None
                           \<or> assertQueue h ''notifications'' True \<noteq> None)"
  proof -
    from refused have all: "\<forall>a\<in>set cs. \<forall>mq'. isl (fst (initialize_try a mq'))"
      by (simp add: initialize_try_refused)
    from initialize_run_all_fail [OF all, of mq] initialize_run_last [OF all, of mq]
    show ?thesis by simp
  qed
  show ?thesis
    apply (intro conjI)
    using no_connection apply blast
    using no_channel apply blast
    using no_first apply blast
    using no_second apply blast
    using through apply blast
    using timer apply blast
    using run apply blast
    done
qed

theorem initialize_retries_witness:
  "initialize broker_down \<lparr>connection = None, channel = None\<rparr> =
     (\<lparr>connection = None, channel = None\<rparr>,
      [Connect ''amqp://localhost'',
       LogError ''Failed to initialize message queue:'' (Error ''ECONNREFUSED''),
       SetTimeout Initialize 5000])
   \<and> snd (initialize broker_without_channel \<lparr>connection = None, channel = None\<rparr>) =
      [Connect ''amqp://localhost'', CreateChannel,
       LogError ''Failed to initialize message queue:'' (Error ''Channel refused''),
       SetTimeout Initialize 5000]
   \<and> snd (initialize broker_without_queues \<lparr>connection = None, channel = None\<rparr>) =
      [Connect ''amqp://localhost'', CreateChannel, AssertQueue ''chat_messages'' True,
       LogError ''Failed to initialize message queue:'' (Error ''Channel closed''),
       SetTimeout Initialize 5000]
   \<and> snd (initialize broker_without_notifications \<lparr>connection = None, channel = None\<rparr>) =
      [Connect ''amqp://localhost'', CreateChannel, AssertQueue ''chat_messages'' True,
       AssertQueue ''notifications'' True,
       LogError ''Failed to initialize message queue:'' (Error ''Queue refused''),
       SetTimeout Initialize 5000]
   \<and> initialize broker_up \<lparr>connection = None, channel = None\<rparr> =
     (\<lparr>connection = Some \<lparr>createChannel = Inr open_channel\<rparr>, channel = Some open_channel\<rparr>,
      [Connect ''amqp://localhost'', CreateChannel, AssertQueue ''chat_messages'' True,
       AssertQueue ''notifications'' True, Log ''Message queue system initialized'',
       Consume ''chat_messages'', Consume ''notifications''])
   \<and> length (filter (\<lambda>x. x = SetTimeout Initialize 5000)
        (snd (initialize_run
                [broker_down, broker_without_channel, broker_without_queues,
                 broker_without_notifications]
                \<lparr>connection = None, channel = None\<rparr>))) = 4
   \<and> last (snd (initialize_run
                [broker_down, broker_without_channel, broker_without_queues,
                 broker_without_notifications]
                \<lparr>connection = None, channel = None\<rparr>)) = SetTimeout Initialize 5000"
proof -
  let ?mq = "\<lparr>connection = None, channel = None\<rparr>"
  let ?cs = "[broker_down, broker_without_channel, broker_without_queues,
              broker_without_notifications]"
  let ?half = "\<lparr>assertQueue = (\<lambda>q d. if q = ''notifications''
                                        then Some (Error ''Queue refused'') else None),
                sendToQueue = (\<lambda>q b p. Inr True)\<rparr>"
  have t1: "initialize broker_down ?mq =
     (?mq, [Connect ''amqp://localhost'',
       LogError ''Failed to initialize message queue:'' (Error ''ECONNREFUSED''),
       SetTimeout Initialize 5000])"
    using initialize_retries [where c = broker_down and mq = ?mq and e = "Error ''ECONNREFUSED''"
        and conn = "\<lparr>createChannel = Inr open_channel\<rparr>" and ch = open_channel
        and cb = Initialize and delay = 5000 and cs = "[]"]
    by (simp add: broker_down_def)
  have t2: "snd (initialize broker_without_channel ?mq) =
      [Connect ''amqp://localhost'', CreateChannel,
       LogError ''Failed to initialize message queue:'' (Error ''Channel refused''),
       SetTimeout Initialize 5000]"
    using initialize_retries [where c = broker_without_channel and mq = ?mq
        and e = "Error ''Channel refused''"
        and conn = "\<lparr>createChannel = Inl (Error ''Channel refused'')\<rparr>" and ch = open_channel
        and cb = Initialize and delay = 5000 and cs = "[]"]
    by (simp add: broker_without_channel_def)
  have t3: "snd (initialize broker_without_queues ?mq) =
      [Connect ''amqp://localhost'', CreateChannel, AssertQueue ''chat_messages'' True,
       LogError ''Failed to initialize message queue:'' (Error ''Channel closed''),
       SetTimeout Initialize 5000]"
    using initialize_retries [where c = broker_without_queues and mq = ?mq
        and e = "Error ''Channel closed''"
        and conn = "\<lparr>createChannel = Inr refusing_channel\<rparr>" and ch = refusing_channel
        and cb = Initialize and delay = 5000 and cs = "[]"]
    by (simp add: broker_without_queues_def refusing_channel_def)
  have t4: "snd (initialize broker_without_notifications ?mq) =
      [Connect ''amqp://localhost'', CreateChannel, AssertQueue ''chat_messages'' True,
       AssertQueue ''notifications'' True,
       LogError ''Failed to initialize message queue:'' (Error ''Queue refused''),
       SetTimeout Initialize 5000]"
    using initialize_retries [where c = broker_without_notifications and mq = ?mq
        and e = "Error ''Queue refused''"
        and conn = "\<lparr>createChannel = Inr ?half\<rparr>" and ch = ?half
        and cb = Initialize and delay = 5000 and cs = "[]"]
    by (simp add: broker_without_notifications_def)
  have t5: "initialize broker_up ?mq =
     (\<lparr>connection = Some \<lparr>createChannel = Inr open_channel\<rparr>, channel = Some open_channel\<rparr>,
      [Connect ''amqp://localhost'', CreateChannel, AssertQueue ''chat_messages'' True,
       AssertQueue ''notifications'' True, Log ''Message queue system initialized'',
       Consume ''chat_messages'', Consume ''notifications''])"
    using initialize_retries [where c = broker_up and mq = ?mq
        and e = "Error ''Queue refused''"
        and conn = "\<lparr>createChannel = Inr open_channel\<rparr>" and ch = open_channel
        and cb = Initialize and delay = 5000 and cs = "[]"]
    by (simp add: broker_up_def open_channel_def)
  have refused: "\<forall>a\<in>set ?cs.
          case a ''amqp://localhost'' of
            Inl x \<Rightarrow> True
          | Inr k \<Rightarrow>
              (case createChannel k of
                 Inl x \<Rightarrow> True
               | Inr h \<Rightarrow> assertQueue h ''chat_messages'' True \<noteq> None
                           \<or> assertQueue h ''notifications'' True \<noteq> None)"
    by (simp add: broker_down_def broker_without_channel_def broker_without_queues_def
                  broker_without_notifications_def refusing_channel_def)
  have t6: "length (filter (\<lambda>x. x = SetTimeout Initialize 5000)
              (snd (initialize_run ?cs ?mq))) = 4
          \<and> last (snd (initialize_run ?cs ?mq)) = SetTimeout Initialize 5000"
    using refused
      initialize_retries [where c = broker_up and mq = ?mq
        and e = "Error ''Queue refused''"
        and conn = "\<lparr>createChannel = Inr open_channel\<rparr>" and ch = open_channel
        and cb = Initialize and delay = 5000 and cs = ?cs]
    by simp
  from t1 t2 t3 t4 t5 t6 show ?thesis by blast
qed

text \<open>
  Claim C7. \<open>queueMessage\<close> and \<open>queueNotification\<close> fail with an error while the channel
  is not established; otherwise they hand the serialized envelope to the named queue, with
  the persistent flag set. Every queue that \<open>initialize\<close> declares is declared durable, and
  a successful initialization declares both queues.
\<close>

theorem enqueue_contract:
  "(channel mq = None \<longrightarrow>
      queueMessage rt mq v = (Inl (Error ''Message queue not initialized''), [])
      \<and> queueNotification rt mq v = (Inl (Error ''Message queue not initialized''), []))
   \<and> (channel mq = Some ch \<and> JSON_stringify rt v = Some b \<longrightarrow>
      queueMessage rt mq v =
        (sendToQueue ch ''chat_messages'' b True, [SendToQueue ''chat_messages'' b True])
      \<and> queueNotification rt mq v =
        (sendToQueue ch ''notifications'' b True, [SendToQueue ''notifications'' b True]))
   \<and> (SendToQueue q b' p \<in> set (snd (queueMessage rt mq v)) \<longrightarrow> p \<and> q = ''chat_messages'')
   \<and> (SendToQueue q b' p \<in> set (snd (queueNotification rt mq v)) \<longrightarrow> p \<and> q = ''notifications'')
   \<and> (AssertQueue q d \<in> set (snd (initialize c mq0)) \<longrightarrow>
        d \<and> (q = ''chat_messages'' \<or> q = ''notifications''))
   \<and> (fst (initialize_try c mq0) = Inr () \<longrightarrow>
        AssertQueue ''chat_messages'' True \<in> set (snd (initialize c mq0))
        \<and> AssertQueue ''notifications'' True \<in> set (snd (initialize c mq0)))"
proof -
  have none: "queueMessage rt mq v = (Inl (Error ''Message queue not initialized''), [])
      \<and> queueNotification rt mq v = (Inl (Error ''Message queue not initialized''), [])"
    if "channel mq = None"
    using that by (simp add: queueMessage_def queueNotification_def)
  have some: "queueMessage rt mq v =
        (sendToQueue ch ''chat_messages'' b True, [SendToQueue ''chat_messages'' b True])
      \<and> queueNotification rt mq v =
        (sendToQueue ch ''notifications'' b True, [SendToQueue ''notifications'' b True])"
    if "channel mq = Some ch \<and> JSON_stringify rt v = Some b"
    using that by (simp add: queueMessage_def queueNotification_def)
  have pm: "p \<and> q = ''chat_messages''" if "SendToQueue q b' p \<in> set (snd (queueMessage rt mq v))"
    using that by (auto simp: queueMessage_def split: option.splits)
  have pn: "p \<and> q = ''notifications''"
    if "SendToQueue q b' p \<in> set (snd (queueNotification rt mq v))"
    using that by (auto simp: queueNotification_def split: option.splits)
  have durable: "d \<and> (q = ''chat_messages'' \<or> q = ''notifications'')"
    if "AssertQueue q d \<in> set (snd (initialize c mq0))"
    using that initialize_try_cases [of c mq0] by (auto simp: initialize_def)
  have declared: "AssertQueue ''chat_messages'' True \<in> set (snd (initialize c mq0))
        \<and> AssertQueue ''notifications'' True \<in> set (snd (initialize c mq0))"
    if "fst (initialize_try c mq0) = Inr ()"
    using initialize_success [OF that] by simp
  from none some pm pn durable declared show ?thesis by blast
qed

theorem enqueue_contract_witness:
  "queueMessage sample_runtime \<lparr>connection = None, channel = None\<rparr> (Obj [])
     = (Inl (Error ''Message queue not initialized''), [])
   \<and> queueMessage sample_runtime \<lparr>connection = None, channel = Some open_channel\<rparr> (Obj [])
     = (Inr True, [SendToQueue ''chat_messages'' ''{}'' True])
   \<and> queueNotification sample_runtime \<lparr>connection = None, channel = Some open_channel\<rparr> (Obj [])
     = (Inr True, [SendToQueue ''notifications'' ''{}'' True])
   \<and> AssertQueue ''notifications'' True
       \<in> set (snd (initialize broker_up \<lparr>connection = None, channel = None\<rparr>))"
proof -
  have u: "fst (initialize_try broker_up \<lparr>connection = None, channel = None\<rparr>) = Inr ()"
    by (simp add: initialize_try_def broker_up_def open_channel_def startMessageProcessing_def)
  have s: "JSON_stringify sample_runtime (Obj []) = Some ''{}''"
    by (simp add: sample_runtime_def)
  from u s
    enqueue_contract [where mq = "\<lparr>connection = None, channel = None\<rparr>"
                        and rt = sample_runtime and v = "Obj []" and ch = open_channel
                        and b = "''{}''" and c = broker_up and q = "''notifications''"
                        and b' = "''{}''" and p = True and d = True
                        and ?mq0.0 = "\<lparr>connection = None, channel = None\<rparr>"]
    enqueue_contract [where mq = "\<lparr>connection = None, channel = Some open_channel\<rparr>"
                        and rt = sample_runtime and v = "Obj []" and ch = open_channel
                        and b = "''{}''" and c = broker_up and q = "''notifications''"
                        and b' = "''{}''" and p = True and d = True
                        and ?mq0.0 = "\<lparr>connection = None, channel = None\<rparr>"]
  show ?thesis by (simp add: open_channel_def)
qed

section \<open>Properties of the socket handlers\<close>

lemma get_prop_message_object:
  "get_prop (message_object u now c t a) ''id'' = Inr Undefined"
  by (simp add: message_object_def)

lemma storeMessageDeliveryStatus_message_object:
  "storeMessageDeliveryStatus rt (message_object u now c t a)
     = [Log ''Storing delivery status for message: undefined'']"
  by (simp add: storeMessageDeliveryStatus_def get_prop_message_object)

text \<open>
  Claim C4, for a chat id that has a string form. For every \<^verbatim>\<open>send_message\<close> event
  whose data can be read: when the enqueue of the message fails (no channel, a message
  that cannot be serialized, a broker that refuses it), the sender's socket gets an
  \<^verbatim>\<open>error\<close> event and no \<^verbatim>\<open>new_message\<close> is emitted; when it succeeds and the chat
  id converts to a string, the broadcast of the message to the chat room comes next,
  before any step of the consumer (no write to the store, no acknowledgement).
\<close>

theorem send_message_enqueue_gate:
  assumes "get_prop data ''chatId'' = Inr c"
      and "get_prop data ''content'' = Inr t"
      and "get_prop data ''attachments'' = Inr a"
      and "msg = Obj [(''sender'', Str (socket_user sock)), (''content'', t),
                      (''attachments'', if truthy a then a else Arr []),
                      (''timestamp'', Date now), (''chatId'', c)]"
  shows "(channel mq = None \<or> channel mq = Some ch \<and> JSON_stringify rt msg = None \<longrightarrow>
            on_send_message rt now mq sock data =
              [Emit (ToSocket (socket_id sock)) ''error''
                 (Obj [(''message'', Str ''Failed to send message'')])])
       \<and> (channel mq = Some ch \<and> JSON_stringify rt msg = Some b
            \<and> sendToQueue ch ''chat_messages'' b True = Inl e \<longrightarrow>
            on_send_message rt now mq sock data =
              [SendToQueue ''chat_messages'' b True,
               Emit (ToSocket (socket_id sock)) ''error''
                 (Obj [(''message'', Str ''Failed to send message'')])])
       \<and> (channel mq = Some ch \<and> JSON_stringify rt msg = Some b
            \<and> sendToQueue ch ''chat_messages'' b True = Inr queued
            \<and> String_of rt c = Inr room \<longrightarrow>
            on_send_message rt now mq sock data =
              [SendToQueue ''chat_messages'' b True,
               Emit (ToRoom (''chat:'' @ room)) ''new_message'' msg,
               Log ''Storing delivery status for message: undefined''])
       \<and> (fst (queueMessage rt mq msg) = Inl e \<longrightarrow>
            Emit tg ''new_message'' v \<notin> set (on_send_message rt now mq sock data))"
proof -
  have m: "message_object (socket_user sock) now c t a = msg"
    by (simp add: message_object_def assms(4))
  have store: "storeMessageDeliveryStatus rt msg
                 = [Log ''Storing delivery status for message: undefined'']"
    using storeMessageDeliveryStatus_message_object [of rt "socket_user sock" now c t a] m
    by simp
  have not_sent: "on_send_message rt now mq sock data =
              [Emit (ToSocket (socket_id sock)) ''error''
                 (Obj [(''message'', Str ''Failed to send message'')])]"
    if "channel mq = None \<or> channel mq = Some ch \<and> JSON_stringify rt msg = None"
    using that assms(1,2,3) m by (auto simp: on_send_message_def queueMessage_def)
  have refused: "on_send_message rt now mq sock data =
              [SendToQueue ''chat_messages'' b True,
               Emit (ToSocket (socket_id sock)) ''error''
                 (Obj [(''message'', Str ''Failed to send message'')])]"
    if "channel mq = Some ch \<and> JSON_stringify rt msg = Some b
            \<and> sendToQueue ch ''chat_messages'' b True = Inl e"
    using that assms(1,2,3) m by (simp add: on_send_message_def queueMessage_def)
  have sent: "on_send_message rt now mq sock data =
              [SendToQueue ''chat_messages'' b True,
               Emit (ToRoom (''chat:'' @ room)) ''new_message'' msg,
               Log ''Storing delivery status for message: undefined'']"
    if "channel mq = Some ch \<and> JSON_stringify rt msg = Some b
            \<and> sendToQueue ch ''chat_messages'' b True = Inr queued
            \<and> String_of rt c = Inr room"
    using that assms(1,2,3) m store by (simp add: on_send_message_def queueMessage_def)
  have no_broadcast: "Emit tg ''new_message'' v \<notin> set (on_send_message rt now mq sock data)"
    if f: "fst (queueMessage rt mq msg) = Inl e"
  proof -
    obtain es where q: "queueMessage rt mq msg = (Inl e, es)"
      using f by (cases "queueMessage rt mq msg") auto
    have quiet: "x \<in> set es \<Longrightarrow> \<exists>b. x = SendToQueue ''chat_messages'' b True" for x
      using queueMessage_effects [of x rt mq msg] q by simp
    have "on_send_message rt now mq sock data =
            es @ [Emit (ToSocket (socket_id sock)) ''error''
                    (Obj [(''message'', Str ''Failed to send message'')])]"
      using assms(1,2,3) m q by (simp add: on_send_message_def)
    then show ?thesis using quiet by auto
  qed
  show ?thesis
    apply (intro conjI)
    using not_sent apply blast
    using refused apply blast
    using sent apply blast
    using no_broadcast apply blast
    done
qed

theorem send_message_enqueue_gate_witness:
  "on_send_message sample_runtime 1700000000000 \<lparr>connection = None, channel = None\<rparr>
      \<lparr>socket_id = ''s1'', socket_user = ''user123''\<rparr>
      (Obj [(''chatId'', Str ''room1''), (''content'', Str ''hi'')])
     = [Emit (ToSocket ''s1'') ''error'' (Obj [(''message'', Str ''Failed to send message'')])]
   \<and> on_send_message sample_runtime 1700000000000
      \<lparr>connection = None, channel = Some refusing_channel\<rparr>
      \<lparr>socket_id = ''s1'', socket_user = ''user123''\<rparr>
      (Obj [(''chatId'', Str ''room1''), (''content'', Str ''hi'')])
     = [SendToQueue ''chat_messages'' ''{...}'' True,
        Emit (ToSocket ''s1'') ''error'' (Obj [(''message'', Str ''Failed to send message'')])]
   \<and> on_send_message sample_runtime 1700000000000
      \<lparr>connection = None, channel = Some open_channel\<rparr>
      \<lparr>socket_id = ''s1'', socket_user = ''user123''\<rparr>
      (Obj [(''chatId'', Str ''room1''), (''content'', Str ''hi'')])
     = [SendToQueue ''chat_messages'' ''{...}'' True,
        Emit (ToRoom ''chat:room1'') ''new_message''
          (Obj [(''sender'', Str ''user123''), (''content'', Str ''hi''),
                (''attachments'', Arr []), (''timestamp'', Date 1700000000000),
                (''chatId'', Str ''room1'')]),
        Log ''Storing delivery status for message: undefined'']"
proof -
  let ?data = "Obj [(''chatId'', Str ''room1''), (''content'', Str ''hi'')]"
  let ?sock = "\<lparr>socket_id = ''s1'', socket_user = ''user123''\<rparr>"
  let ?msg = "Obj [(''sender'', Str ''user123''), (''content'', Str ''hi''),
                   (''attachments'', Arr []), (''timestamp'', Date 1700000000000),
                   (''chatId'', Str ''room1'')]"
  have c: "get_prop ?data ''chatId'' = Inr (Str ''room1'')"
    and t: "get_prop ?data ''content'' = Inr (Str ''hi'')"
    and a: "get_prop ?data ''attachments'' = Inr Undefined"
    by simp_all
  have m: "?msg = Obj [(''sender'', Str (socket_user ?sock)), (''content'', Str ''hi''),
                      (''attachments'', if truthy Undefined then Undefined else Arr []),
                      (''timestamp'', Date 1700000000000), (''chatId'', Str ''room1'')]"
    by simp
  have facts:
    "JSON_stringify sample_runtime ?msg = Some ''{...}''"
    "sendToQueue open_channel ''chat_messages'' ''{...}'' True = Inr True"
    "sendToQueue refusing_channel ''chat_messages'' ''{...}'' True = Inl (Error ''Channel closed'')"
    "String_of sample_runtime (Str ''room1'') = Inr ''room1''"
    by (simp_all add: sample_runtime_def open_channel_def refusing_channel_def)
  have t1: "on_send_message sample_runtime 1700000000000 \<lparr>connection = None, channel = None\<rparr>
              ?sock ?data
     = [Emit (ToSocket ''s1'') ''error'' (Obj [(''message'', Str ''Failed to send message'')])]"
    using send_message_enqueue_gate [OF c t a m, where rt = sample_runtime
         and mq = "\<lparr>connection = None, channel = None\<rparr>" and ch = open_channel
         and b = "''{...}''" and e = "Error ''Channel closed''" and queued = True
         and room = "''room1''" and tg = ToAll and v = Null]
    by simp
  have t2: "on_send_message sample_runtime 1700000000000
              \<lparr>connection = None, channel = Some refusing_channel\<rparr> ?sock ?data
     = [SendToQueue ''chat_messages'' ''{...}'' True,
        Emit (ToSocket ''s1'') ''error'' (Obj [(''message'', Str ''Failed to send message'')])]"
    using facts send_message_enqueue_gate [OF c t a m, where rt = sample_runtime
         and mq = "\<lparr>connection = None, channel = Some refusing_channel\<rparr>"
         and ch = refusing_channel
         and b = "''{...}''" and e = "Error ''Channel closed''" and queued = True
         and room = "''room1''" and tg = ToAll and v = Null]
    by simp
  have t3: "on_send_message sample_runtime 1700000000000
              \<lparr>connection = None, channel = Some open_channel\<rparr> ?sock ?data
     = [SendToQueue ''chat_messages'' ''{...}'' True,
        Emit (ToRoom ''chat:room1'') ''new_message'' ?msg,
        Log ''Storing delivery status for message: undefined'']"
    using facts send_message_enqueue_gate [OF c t a m, where rt = sample_runtime
         and mq = "\<lparr>connection = None, channel = Some open_channel\<rparr>"
         and ch = open_channel
         and b = "''{...}''" and e = "Error ''Channel closed''" and queued = True
         and room = "''room1''" and tg = ToAll and v = Null]
    by simp
  from t1 t2 t3 show ?thesis by blast
qed

text \<open>
  Claim C4 as stated promises the broadcast whenever the enqueue succeeds. A chat id that
  is an object with a property \<^verbatim>\<open>toString\<close> has no string form: the message is
  enqueued, building the room's name throws, and the handler answers the sender with an
  \<^verbatim>\<open>error\<close> event instead of the broadcast.
\<close>

theorem send_message_enqueued_not_broadcast:
  "on_send_message sample_runtime 1700000000000
      \<lparr>connection = None, channel = Some open_channel\<rparr>
      \<lparr>socket_id = ''s1'', socket_user = ''user123''\<rparr>
      (Obj [(''chatId'', Obj [(''toString'', Num 1)]), (''content'', Str ''hi'')])
     = [SendToQueue ''chat_messages'' ''{...}'' True,
        Emit (ToSocket ''s1'') ''error'' (Obj [(''message'', Str ''Failed to send message'')])]"
  by (simp add: on_send_message_def message_object_def queueMessage_def
                sample_runtime_def open_channel_def)

section \<open>What the send handler and the chat consumer leave out\<close>

text \<open>
  Claim C1. The message that the \<^verbatim>\<open>send_message\<close> handler builds, enqueues and
  broadcasts should carry a message identifier \<^verbatim>\<open>id\<close> next to sender, content,
  attachments, timestamp and chat id. The object literal has no such property: reading
  \<^verbatim>\<open>id\<close> from it gives \<^verbatim>\<open>undefined\<close>, whatever the event, and the line that
  \<^verbatim>\<open>storeMessageDeliveryStatus\<close> prints from \<^verbatim>\<open>message.id\<close> says so.
\<close>

theorem send_message_envelope_without_id:
  "get_prop (message_object u now c t a) ''id'' = Inr Undefined
   \<and> on_send_message sample_runtime 1700000000000
        \<lparr>connection = None, channel = Some open_channel\<rparr>
        \<lparr>socket_id = ''s1'', socket_user = ''user123''\<rparr>
        (Obj [(''chatId'', Str ''room1''), (''content'', Str ''hi'')])
     = [SendToQueue ''chat_messages'' ''{...}'' True,
        Emit (ToRoom ''chat:room1'') ''new_message''
          (Obj [(''sender'', Str ''user123''), (''content'', Str ''hi''),
                (''attachments'', Arr []), (''timestamp'', Date 1700000000000),
                (''chatId'', Str ''room1'')]),
        Log ''Storing delivery status for message: undefined'']"
  by (simp add: message_object_def on_send_message_def queueMessage_def
                storeMessageDeliveryStatus_def sample_runtime_def open_channel_def)

lemma on_chat_message_no_save: "Save \<notin> set (on_chat_message rt this msg)"
proof (cases msg)
  case None
  then show ?thesis by (simp add: on_chat_message_def)
next
  case (Some m)
  have quiet: "Save \<notin> set (snd (processMessage rt this x))" for x
    using processMessage_effects [of Save rt this x] by auto
  have pm: "processMessage rt this x = (r, es) \<Longrightarrow> Save \<notin> set es" for x r es
    using quiet [of x] by simp
  show ?thesis
    using Some pm
    by (auto simp: on_chat_message_def channel_call_def
             split: sum.splits prod.splits option.splits)
qed

text \<open>
  Claim C2, as the code has it. The chat-messages consumer writes nothing to the store. For
  an item that parses to a value other than \<^verbatim>\<open>null\<close> and whose notification the broker
  accepts, it does, in this order: print the message, derive a notification of type
  \<^verbatim>\<open>message_delivered\<close> carrying the message's chat id, send it to the
  \<^verbatim>\<open>notifications\<close> queue with the persistent flag, acknowledge the item. Whenever the
  item is acknowledged, the notification was sent before.
\<close>

theorem chat_consumer_pipeline:
  "Save \<notin> set (on_chat_message rt this msg)
   \<and> (channel this = Some ch \<and> JSON_parse rt (content_text m) = Inr parsed
        \<and> notification_of parsed = Inr n \<and> JSON_stringify rt n = Some b
        \<and> sendToQueue ch ''notifications'' b True = Inr sent \<longrightarrow>
        on_chat_message rt this (Some m) =
          [Log (''Processing message: '' @ stringified rt parsed),
           SendToQueue ''notifications'' b True,
           Ack m]
        \<and> get_prop n ''type'' = Inr (Str ''message_delivered'')
        \<and> get_prop n ''chatId'' = get_prop parsed ''chatId'')
   \<and> (channel this = Some ch \<and> Ack m \<in> set (on_chat_message rt this (Some m)) \<longrightarrow>
        (\<exists>l b'. on_chat_message rt this (Some m) =
                  [Log l, SendToQueue ''notifications'' b' True, Ack m]))"
proof -
  have run: "on_chat_message rt this (Some m) =
          [Log (''Processing message: '' @ stringified rt parsed),
           SendToQueue ''notifications'' b True,
           Ack m]"
    if "channel this = Some ch" "JSON_parse rt (content_text m) = Inr parsed"
       "notification_of parsed = Inr n" "JSON_stringify rt n = Some b"
       "sendToQueue ch ''notifications'' b True = Inr sent"
    using that
    by (simp add: on_chat_message_def processMessage_def queueNotification_def channel_call_def)
  have shape: "get_prop n ''type'' = Inr (Str ''message_delivered'')
        \<and> get_prop n ''chatId'' = get_prop parsed ''chatId''"
    if "notification_of parsed = Inr n"
    using that by (auto simp: notification_of_def split: sum.splits)
  have acked: "\<exists>l b'. on_chat_message rt this (Some m) =
                  [Log l, SendToQueue ''notifications'' b' True, Ack m]"
    if ch: "channel this = Some ch" and ack: "Ack m \<in> set (on_chat_message rt this (Some m))"
  proof -
    have quiet: "Ack m \<notin> set (snd (processMessage rt this x))" for x
      using processMessage_effects [of "Ack m" rt this x] by auto
    from ack quiet obtain p where p: "JSON_parse rt (content_text m) = Inr p"
        and ok: "fst (processMessage rt this p) = Inr ()"
      by (auto simp: on_chat_message_Some [OF ch] split: sum.splits)
    from ok ch obtain b' where
      "snd (processMessage rt this p) =
         [Log (''Processing message: '' @ stringified rt p), SendToQueue ''notifications'' b' True]"
      by (auto simp: processMessage_def queueNotification_def Let_def
               split: sum.splits option.splits)
    with p ok show ?thesis by (simp add: on_chat_message_Some [OF ch])
  qed
  from run shape acked on_chat_message_no_save [of rt this msg] show ?thesis by blast
qed

theorem chat_consumer_pipeline_witness:
  "on_chat_message sample_runtime \<lparr>connection = None, channel = Some open_channel\<rparr>
      (Some \<lparr>deliveryTag = 7, content_text = ''{}''\<rparr>)
     = [Log ''Processing message: {}'',
        SendToQueue ''notifications'' ''{...}'' True,
        Ack \<lparr>deliveryTag = 7, content_text = ''{}''\<rparr>]"
proof -
  have n: "notification_of (Obj []) =
             Inr (Obj [(''type'', Str ''message_delivered''), (''messageId'', Undefined),
                       (''chatId'', Undefined), (''recipients'', Undefined)])"
    by (simp add: notification_of_def)
  have facts:
    "channel \<lparr>connection = None, channel = Some open_channel\<rparr> = Some open_channel"
    "JSON_parse sample_runtime ''{}'' = Inr (Obj [])"
    "JSON_stringify sample_runtime
       (Obj [(''type'', Str ''message_delivered''), (''messageId'', Undefined),
             (''chatId'', Undefined), (''recipients'', Undefined)]) = Some ''{...}''"
    "sendToQueue open_channel ''notifications'' ''{...}'' True = Inr True"
    "stringified sample_runtime (Obj []) = ''{}''"
    by (simp_all add: sample_runtime_def open_channel_def stringified_def)
  show ?thesis
    using n facts
      chat_consumer_pipeline [where rt = sample_runtime
        and this = "\<lparr>connection = None, channel = Some open_channel\<rparr>"
        and msg = None and ch = open_channel
        and m = "\<lparr>deliveryTag = 7, content_text = ''{}''\<rparr>" and parsed = "Obj []"
        and n = "Obj [(''type'', Str ''message_delivered''), (''messageId'', Undefined),
                      (''chatId'', Undefined), (''recipients'', Undefined)]"
        and b = "''{...}''" and sent = True]
    by simp
qed

text \<open>
  Claim C2 as stated asks for a write of the message and of one delivery record per
  recipient before the notification. On an item holding a message of chat \<^verbatim>\<open>room1\<close>
  the consumer prints, sends the notification and acknowledges: no write happens.
\<close>

theorem chat_consumer_writes_nothing:
  "on_chat_message sample_runtime \<lparr>connection = None, channel = Some open_channel\<rparr>
      (Some \<lparr>deliveryTag = 7, content_text = ''{\"chatId\":\"room1\"}''\<rparr>)
     = [Log ''Processing message: {...}'',
        SendToQueue ''notifications'' ''{...}'' True,
        Ack \<lparr>deliveryTag = 7, content_text = ''{\"chatId\":\"room1\"}''\<rparr>]
   \<and> Save \<notin> set (on_chat_message sample_runtime
                     \<lparr>connection = None, channel = Some open_channel\<rparr>
                     (Some \<lparr>deliveryTag = 7, content_text = ''{\"chatId\":\"room1\"}''\<rparr>))"
  by (simp add: on_chat_message_def processMessage_def notification_of_def
                queueNotification_def channel_call_def stringified_def
                sample_runtime_def open_channel_def)

section \<open>Read receipts and chat creation\<close>

text \<open>
  Claim C5, as the code has it. A \<^verbatim>\<open>mark_read\<close> event never changes a stored message,
  whether or not the message was marked delivered before, and writes nothing to the store:
  no read or delivery timestamp is set. When the event's data carries a chat id and a
  message id that have string forms, the handler is not rejected: it prints a line and
  emits \<^verbatim>\<open>message_read\<close>, with the reader, the message id and the chat id, to the
  other sockets of the chat room, and that is all.
\<close>

theorem mark_read_effects:
  "fst (snd (on_mark_read rt db sock data)) = db
   \<and> Save \<notin> set (snd (snd (on_mark_read rt db sock data)))
   \<and> (get_prop data ''chatId'' = Inr c \<and> get_prop data ''messageId'' = Inr i
        \<and> String_of rt i = Inr message_text \<and> String_of rt c = Inr chat_text \<longrightarrow>
        on_mark_read rt db sock data =
          (Inr (), db,
           [Log (''User '' @ socket_user sock @ '' read message '' @ message_text
                 @ '' in chat '' @ chat_text),
            Emit (ToRoomExcept (''chat:'' @ chat_text) (socket_id sock))
              ''message_read''
              (Obj [(''userId'', Str (socket_user sock)), (''messageId'', i),
                    (''chatId'', c)])]))"
  by (auto simp: on_mark_read_def updateMessageReadStatus_def split: sum.splits)

theorem mark_read_effects_witness:
  "on_mark_read sample_runtime Map.empty \<lparr>socket_id = ''s2'', socket_user = ''bob''\<rparr>
      (Obj [(''chatId'', Str ''room1''), (''messageId'', Str ''m1'')])
     = (Inr (), Map.empty,
        [Log ''User bob read message m1 in chat room1'',
         Emit (ToRoomExcept ''chat:room1'' ''s2'') ''message_read''
           (Obj [(''userId'', Str ''bob''), (''messageId'', Str ''m1''),
                 (''chatId'', Str ''room1'')])])"
proof -
  have g: "get_prop (Obj [(''chatId'', Str ''room1''), (''messageId'', Str ''m1'')]) ''chatId''
             = Inr (Str ''room1'')"
          "get_prop (Obj [(''chatId'', Str ''room1''), (''messageId'', Str ''m1'')]) ''messageId''
             = Inr (Str ''m1'')"
    by simp_all
  have s: "String_of sample_runtime (Str ''room1'') = Inr ''room1''"
          "String_of sample_runtime (Str ''m1'') = Inr ''m1''"
    by simp_all
  show ?thesis
    using g s
      mark_read_effects [where rt = sample_runtime and db = Map.empty
        and sock = "\<lparr>socket_id = ''s2'', socket_user = ''bob''\<rparr>"
        and data = "Obj [(''chatId'', Str ''room1''), (''messageId'', Str ''m1'')]"
        and c = "Str ''room1''" and i = "Str ''m1''"
        and message_text = "''m1''" and chat_text = "''room1''"]
    by simp
qed

text \<open>
  Claim C5 as stated asks that marking a message read before it was marked delivered sets
  both timestamps. With a stored message \<^verbatim>\<open>m1\<close> that nobody has received or read, the
  lists \<^verbatim>\<open>readBy\<close> and \<^verbatim>\<open>deliveredTo\<close> of \<^verbatim>\<open>m1\<close> are still empty after
  the event.
\<close>

theorem mark_read_sets_no_timestamp:
  "map_option readBy
     (fst (snd (on_mark_read sample_runtime
             [''m1'' \<mapsto> \<lparr>chatId = Some (ObjectId ''c1''), sender = Some (ObjectId ''a''),
                         content = Some ''hi'', attachments = Some [], replyTo = None,
                         deliveredTo = [], readBy = [], deleted = False\<rparr>]
             \<lparr>socket_id = ''s2'', socket_user = ''bob''\<rparr>
             (Obj [(''chatId'', Str ''room1''), (''messageId'', Str ''m1'')]))) ''m1'')
     = Some []
   \<and> map_option deliveredTo
     (fst (snd (on_mark_read sample_runtime
             [''m1'' \<mapsto> \<lparr>chatId = Some (ObjectId ''c1''), sender = Some (ObjectId ''a''),
                         content = Some ''hi'', attachments = Some [], replyTo = None,
                         deliveredTo = [], readBy = [], deleted = False\<rparr>]
             \<lparr>socket_id = ''s2'', socket_user = ''bob''\<rparr>
             (Obj [(''chatId'', Str ''room1''), (''messageId'', Str ''m1'')]))) ''m1'')
     = Some []"
  by (simp add: on_mark_read_def updateMessageReadStatus_def)

text \<open>
  A message id without a string form: building the console line throws, the handler is
  rejected with nothing printed and nothing emitted.
\<close>

lemma mark_read_rejected:
  "on_mark_read sample_runtime Map.empty \<lparr>socket_id = ''s2'', socket_user = ''bob''\<rparr>
      (Obj [(''chatId'', Str ''room1''), (''messageId'', Obj [(''toString'', Num 1)])])
     = (Inl TypeError, Map.empty, [])"
  by (simp add: on_mark_read_def updateMessageReadStatus_def)

text \<open>
  Claim C6. A \<^verbatim>\<open>create_chat\<close> event that succeeds should bring \<^verbatim>\<open>chat_created\<close>
  to the creator and to every listed participant. The handler looks a participant up in
  the rooms of its own server instance and takes the first socket it finds there. With the
  participant \<^verbatim>\<open>bob\<close> connected through the sockets \<^verbatim>\<open>s2\<close> and \<^verbatim>\<open>s3\<close>, only
  \<^verbatim>\<open>s2\<close> joins the chat and gets the event. With \<^verbatim>\<open>bob\<close> connected to another
  instance (whose rooms do find his socket), the event goes to the creator alone.
\<close>

theorem create_chat_misses_participant_sockets:
  "snd (on_create_chat sample_runtime 0
          \<lparr>rooms = [''user:user123'' \<mapsto> [''s1''], ''user:bob'' \<mapsto> [''s2'', ''s3'']],
           sockets = [''s1'' \<mapsto> \<lparr>socket_id = ''s1'', socket_user = ''user123''\<rparr>,
                      ''s2'' \<mapsto> \<lparr>socket_id = ''s2'', socket_user = ''bob''\<rparr>,
                      ''s3'' \<mapsto> \<lparr>socket_id = ''s3'', socket_user = ''bob''\<rparr>]\<rparr>
          \<lparr>socket_id = ''s1'', socket_user = ''user123''\<rparr>
          (Obj [(''name'', Str ''team''), (''participants'', Arr [Str ''bob'']),
                (''isGroup'', Bool True)]))
     = [Log ''New chat room created: chat_0'',
        Join ''s2'' ''chat:chat_0'',
        Emit (ToSocket ''s2'') ''chat_created''
          (Obj [(''id'', Str ''chat_0''), (''name'', Str ''team''),
                (''participants'', Arr [Str ''bob'']), (''isGroup'', Bool True),
                (''createdBy'', Str ''user123''), (''createdAt'', Date 0)]),
        Emit (ToSocket ''s1'') ''chat_created''
          (Obj [(''id'', Str ''chat_0''), (''name'', Str ''team''),
                (''participants'', Arr [Str ''bob'']), (''isGroup'', Bool True),
                (''createdBy'', Str ''user123''), (''createdAt'', Date 0)])]
   \<and> findUserSocket sample_runtime
        \<lparr>rooms = [''user:bob'' \<mapsto> [''s2'']],
         sockets = [''s2'' \<mapsto> \<lparr>socket_id = ''s2'', socket_user = ''bob''\<rparr>]\<rparr>
        (Str ''bob'')
     = Inr (Some \<lparr>socket_id = ''s2'', socket_user = ''bob''\<rparr>)
   \<and> snd (on_create_chat sample_runtime 0
          \<lparr>rooms = [''user:user123'' \<mapsto> [''s1'']],
           sockets = [''s1'' \<mapsto> \<lparr>socket_id = ''s1'', socket_user = ''user123''\<rparr>]\<rparr>
          \<lparr>socket_id = ''s1'', socket_user = ''user123''\<rparr>
          (Obj [(''name'', Str ''team''), (''participants'', Arr [Str ''bob'']),
                (''isGroup'', Bool True)]))
     = [Log ''New chat room created: chat_0'',
        Emit (ToSocket ''s1'') ''chat_created''
          (Obj [(''id'', Str ''chat_0''), (''name'', Str ''team''),
                (''participants'', Arr [Str ''bob'']), (''isGroup'', Bool True),
                (''createdBy'', Str ''user123''), (''createdAt'', Date 0)])]"
  by (simp add: on_create_chat_def createNewChatRoom_def findUserSocket_def join_def
                sample_runtime_def Let_def)

text \<open>
  A participant id without a string form: the lookup throws inside the loop, after
  \<^verbatim>\<open>bob\<close> was served; the creator gets an \<^verbatim>\<open>error\<close> event and no
  \<^verbatim>\<open>chat_created\<close>.
\<close>

lemma create_chat_unprintable_participant:
  "snd (on_create_chat sample_runtime 0
          \<lparr>rooms = [''user:user123'' \<mapsto> [''s1''], ''user:bob'' \<mapsto> [''s2'']],
           sockets = [''s1'' \<mapsto> \<lparr>socket_id = ''s1'', socket_user = ''user123''\<rparr>,
                      ''s2'' \<mapsto> \<lparr>socket_id = ''s2'', socket_user = ''bob''\<rparr>]\<rparr>
          \<lparr>socket_id = ''s1'', socket_user = ''user123''\<rparr>
          (Obj [(''name'', Str ''team''),
                (''participants'', Arr [Str ''bob'', Obj [(''toString'', Num 1)]]),
                (''isGroup'', Bool True)]))
     = [Log ''New chat room created: chat_0'',
        Join ''s2'' ''chat:chat_0'',
        Emit (ToSocket ''s2'') ''chat_created''
          (Obj [(''id'', Str ''chat_0''), (''name'', Str ''team''),
                (''participants'', Arr [Str ''bob'', Obj [(''toString'', Num 1)]]),
                (''isGroup'', Bool True),
                (''createdBy'', Str ''user123''), (''createdAt'', Date 0)]),
        Emit (ToSocket ''s1'') ''error'' (Obj [(''message'', Str ''Failed to create chat'')])]"
  by (simp add: on_create_chat_def createNewChatRoom_def findUserSocket_def join_def
                sample_runtime_def Let_def)

end
